theory Spec2Isabelle
  imports Complex_Main "HOL-Library.AList" "HOL-Library.Sublist"
begin

section \<open>Programs with effects and exceptions\<close>

text \<open>
  Both scripts are sequential Python: they mutate state (the log, the file system, the
  outside world reached through collaborators) and they raise. A program is a function
  from the state before to an outcome and the state after. The outcome is \<open>Inr x\<close> for a
  normal return of \<open>x\<close> and \<open>Inl e\<close> for a raised exception; the effects made before the
  exception was raised stay in the state, as they do in Python. \<open>Failure\<close> stands for
  any exception a collaborator raises that the scripts themselves give no name.
\<close>

datatype exn =
    FileNotFoundError string
  | FileExistsError string
  | NotADirectoryError string
  | IsADirectoryError string
  | AttributeError
  | TypeError
  | Failure string

type_synonym ('s, 'a) prog = "'s \<Rightarrow> (exn + 'a) \<times> 's"

definition ret :: "'a \<Rightarrow> ('s, 'a) prog" where
  "ret x s = (Inr x, s)"

definition lift :: "exn + 'a \<Rightarrow> ('s, 'a) prog" where
  "lift r s = (r, s)"

definition attempt :: "exn + 'a \<Rightarrow> ('a \<Rightarrow> exn + 'b) \<Rightarrow> exn + 'b" where
  "attempt r f = (case r of Inl e \<Rightarrow> Inl e | Inr x \<Rightarrow> f x)"

definition andthen :: "('s, 'a) prog \<Rightarrow> ('a \<Rightarrow> ('s, 'b) prog) \<Rightarrow> ('s, 'b) prog" where
  "andthen m f s = (case m s of (Inl e, s') \<Rightarrow> (Inl e, s') | (Inr x, s') \<Rightarrow> f x s')"


section \<open>pipeline.py\<close>

subsection \<open>State, logger and delegates\<close>

text \<open>
  The three delegates \<open>preprocess\<close>, \<open>train\<close> and \<open>evaluate\<close> are imported from modules
  outside the two files; they are parameters. Each acts on a world \<open>'w\<close> of its own
  (files, the tracking server, its own attempt counter) and may raise. The run state
  pairs that world with a trace. The trace records what a test with mocked delegates
  observes: every logger line, every invocation of a delegate, every wait before a retry.
\<close>

datatype step = Preprocess | Train | Evaluate

datatype event = Info string | Invoked step | Slept nat

record 'w run_state =
  trace :: "event list"
  world :: 'w

record array_like =
  shape0 :: nat

type_synonym splits = "array_like \<times> array_like \<times> array_like \<times> array_like"

record 'w delegates =
  preprocess :: "'w \<Rightarrow> (exn + splits) \<times> 'w"
  train :: "'w \<Rightarrow> (exn + unit) \<times> 'w"
  evaluate :: "'w \<Rightarrow> (exn + unit) \<times> 'w"

definition logger_info :: "string \<Rightarrow> ('w run_state, unit) prog" where
  "logger_info msg s = (Inr (), s\<lparr>trace := trace s @ [Info msg]\<rparr>)"

definition invoke :: "step \<Rightarrow> ('w \<Rightarrow> (exn + 'a) \<times> 'w) \<Rightarrow> ('w run_state, 'a) prog" where
  "invoke st d s =
     (case d (world s) of (r, w') \<Rightarrow> (r, s\<lparr>trace := trace s @ [Invoked st], world := w'\<rparr>))"

fun invocations :: "event list \<Rightarrow> step list" where
  "invocations [] = []"
| "invocations (Invoked st # es) = st # invocations es"
| "invocations (_ # es) = invocations es"

definition call_count :: "step \<Rightarrow> event list \<Rightarrow> nat" where
  "call_count st es = count_list (invocations es) st"

text \<open>Python's \<open>str\<close> of a non-negative integer, for the f-string of \<open>preprocess_task\<close>.\<close>

definition digit :: "nat \<Rightarrow> char" where
  "digit d = char_of (48 + d)"

fun str_nat :: "nat \<Rightarrow> string" where
  "str_nat n = (if n < 10 then [digit n] else str_nat (n div 10) @ [digit (n mod 10)])"

declare str_nat.simps [simp del]


subsection \<open>The task decorator\<close>

text \<open>
  \<open>@task(name=..., retries=..., retry_delay_seconds=...)\<close> hands the function to the
  orchestration library. What the library does with the options is its documented
  contract: a task run makes one attempt, and after an attempt that raised it waits
  \<open>retry_delay_seconds\<close> and attempts again while retries are left; when none is left the
  last exception is raised to the caller. Both options are 0 when not given.
\<close>

record task_options =
  task_name :: string
  retries :: nat
  retry_delay_seconds :: nat

fun run_with_retries :: "nat \<Rightarrow> nat \<Rightarrow> ('w run_state, 'a) prog \<Rightarrow> ('w run_state, 'a) prog" where
  "run_with_retries 0 d body s = body s"
| "run_with_retries (Suc n) d body s =
     (case body s of
        (Inr x, s') \<Rightarrow> (Inr x, s')
      | (Inl e, s') \<Rightarrow> run_with_retries n d body (s'\<lparr>trace := trace s' @ [Slept d]\<rparr>))"

definition task :: "task_options \<Rightarrow> ('w run_state, 'a) prog \<Rightarrow> ('w run_state, 'a) prog" where
  "task opts body = run_with_retries (retries opts) (retry_delay_seconds opts) body"


subsection \<open>The three tasks\<close>

definition preprocess_task_options :: task_options where
  "preprocess_task_options =
     \<lparr>task_name = ''preprocess_data'', retries = 2, retry_delay_seconds = 10\<rparr>"

definition train_task_options :: task_options where
  "train_task_options = \<lparr>task_name = ''train_model'', retries = 1, retry_delay_seconds = 0\<rparr>"

definition evaluate_task_options :: task_options where
  "evaluate_task_options =
     \<lparr>task_name = ''evaluate_model'', retries = 0, retry_delay_seconds = 0\<rparr>"

definition preprocess_body :: "'w delegates \<Rightarrow> ('w run_state, splits) prog" where
  "preprocess_body D =
     andthen (logger_info ''Starting data preprocessing...'') (\<lambda>_.
     andthen (invoke Preprocess (preprocess D)) (\<lambda>(X_train, X_test, y_train, y_test).
     andthen (logger_info (''Preprocessing complete. Train samples: '' @ str_nat (shape0 X_train)
                @ '', Test samples: '' @ str_nat (shape0 X_test))) (\<lambda>_.
     ret (X_train, X_test, y_train, y_test))))"

definition preprocess_task :: "'w delegates \<Rightarrow> ('w run_state, splits) prog" where
  "preprocess_task D = task preprocess_task_options (preprocess_body D)"

definition train_body :: "'w delegates \<Rightarrow> ('w run_state, unit) prog" where
  "train_body D =
     andthen (logger_info ''Starting model training with MLflow tracking...'') (\<lambda>_.
     andthen (invoke Train (train D)) (\<lambda>_.
     logger_info ''Model training complete.''))"

definition train_task :: "'w delegates \<Rightarrow> ('w run_state, unit) prog" where
  "train_task D = task train_task_options (train_body D)"

definition evaluate_body :: "'w delegates \<Rightarrow> ('w run_state, unit) prog" where
  "evaluate_body D =
     andthen (logger_info ''Starting model evaluation...'') (\<lambda>_.
     andthen (invoke Evaluate (evaluate D)) (\<lambda>_.
     logger_info ''Model evaluation complete. Metrics saved to reports/metrics.json''))"

definition evaluate_task :: "'w delegates \<Rightarrow> ('w run_state, unit) prog" where
  "evaluate_task D = task evaluate_task_options (evaluate_body D)"


subsection \<open>The flows\<close>

text \<open>
  The status mapping is a Python dict with three string keys; an association list keeps
  its insertion order, \<open>AList.update\<close> is the assignment \<open>results[k] = v\<close> and \<open>map_of\<close>
  the lookup.
\<close>

type_synonym status = "(string \<times> bool) list"

definition initial_results :: status where
  "initial_results = [(''preprocessing'', False), (''training'', False), (''evaluation'', False)]"

definition kidney_ml_pipeline ::
  "'w delegates \<Rightarrow> bool \<Rightarrow> bool \<Rightarrow> bool \<Rightarrow> ('w run_state, status) prog" where
  "kidney_ml_pipeline D run_preprocessing run_training run_evaluation =
     andthen (logger_info ''Starting Kidney MLOps Pipeline...'') (\<lambda>_.
     andthen (if run_preprocessing
              then andthen (preprocess_task D) (\<lambda>_. ret (AList.update ''preprocessing'' True initial_results))
              else ret initial_results) (\<lambda>results.
     andthen (if run_training
              then andthen (train_task D) (\<lambda>_. ret (AList.update ''training'' True results))
              else ret results) (\<lambda>results.
     andthen (if run_evaluation
              then andthen (evaluate_task D) (\<lambda>_. ret (AList.update ''evaluation'' True results))
              else ret results) (\<lambda>results.
     andthen (logger_info ''Pipeline execution complete!'') (\<lambda>_.
     ret results)))))"

definition training_pipeline :: "'w delegates \<Rightarrow> ('w run_state, unit) prog" where
  "training_pipeline D =
     andthen (logger_info ''Starting training-only pipeline...'') (\<lambda>_.
     andthen (train_task D) (\<lambda>_.
     andthen (evaluate_task D) (\<lambda>_.
     logger_info ''Training pipeline complete!'')))"


section \<open>monitoring/drift_detection.py\<close>

subsection \<open>Python values\<close>

text \<open>
  The report library hands back a JSON-like structure and the summaries are dicts of
  such values. A dict is an association list in insertion order with string keys. A float
  is carried by the text \<open>repr\<close> gives it (\<open>repr\<close> is one-to-one on floats): the script
  stores and prints floats of the report, it never computes with one.
\<close>

datatype pyval =
    PNone
  | PBool bool
  | PInt int
  | PFloat string
  | PStr string
  | PList "pyval list"
  | PDict "(string \<times> pyval) list"

type_synonym pydict = "(string \<times> pyval) list"

text \<open>\<open>x.get(k, d)\<close>: only a dict has the method.\<close>

fun py_get :: "pyval \<Rightarrow> string \<Rightarrow> pyval \<Rightarrow> exn + pyval" where
  "py_get (PDict kvs) k d = Inr (case map_of kvs k of Some v \<Rightarrow> v | None \<Rightarrow> d)"
| "py_get _ k d = Inl AttributeError"

text \<open>\<open>for x in v\<close>: a list gives its elements, a dict its keys, a string its characters.\<close>

fun py_iter :: "pyval \<Rightarrow> exn + pyval list" where
  "py_iter (PList xs) = Inr xs"
| "py_iter (PDict kvs) = Inr (map (\<lambda>kv. PStr (fst kv)) kvs)"
| "py_iter (PStr s) = Inr (map (\<lambda>c. PStr [c]) s)"
| "py_iter _ = Inl TypeError"

text \<open>\<open>needle in haystack\<close> on strings.\<close>

fun contains :: "string \<Rightarrow> string \<Rightarrow> bool" where
  "contains needle [] = (needle = [])"
| "contains needle (c # cs) = (prefix needle (c # cs) \<or> contains needle cs)"

text \<open>
  \<open>str\<close> and \<open>repr\<close>. Strings are taken to be ASCII text; \<open>repr\<close> of a string picks the
  quote and escapes as Python does.
\<close>

definition str_int :: "int \<Rightarrow> string" where
  "str_int i = (if i < 0 then CHR ''-'' # str_nat (nat (- i)) else str_nat (nat i))"

definition hex_digit :: "nat \<Rightarrow> char" where
  "hex_digit d = (if d < 10 then char_of (48 + d) else char_of (87 + d))"

definition escape_char :: "char \<Rightarrow> char \<Rightarrow> string" where
  "escape_char quote c =
     (if c = quote \<or> c = CHR 0x5C then [CHR 0x5C, c]
      else if c = CHR 0x0A then [CHR 0x5C, CHR ''n'']
      else if c = CHR 0x0D then [CHR 0x5C, CHR ''r'']
      else if c = CHR 0x09 then [CHR 0x5C, CHR ''t'']
      else if of_char c < (32::nat) \<or> of_char c = (127::nat)
        then [CHR 0x5C, CHR ''x'', hex_digit (of_char c div 16), hex_digit (of_char c mod 16)]
      else [c])"

definition repr_str :: "string \<Rightarrow> string" where
  "repr_str s =
     (let quote = (if CHR 0x27 \<in> set s \<and> CHR 0x22 \<notin> set s then CHR 0x22 else CHR 0x27)
      in [quote] @ concat (map (escape_char quote) s) @ [quote])"

fun join :: "string \<Rightarrow> string list \<Rightarrow> string" where
  "join sep [] = []"
| "join sep [x] = x"
| "join sep (x # y # ys) = x @ sep @ join sep (y # ys)"

fun py_repr :: "pyval \<Rightarrow> string"
  and repr_items :: "pyval list \<Rightarrow> string list"
  and repr_pairs :: "(string \<times> pyval) list \<Rightarrow> string list" where
  "py_repr PNone = ''None''"
| "py_repr (PBool b) = (if b then ''True'' else ''False'')"
| "py_repr (PInt i) = str_int i"
| "py_repr (PFloat r) = r"
| "py_repr (PStr s) = repr_str s"
| "py_repr (PList xs) = ''['' @ join '', '' (repr_items xs) @ '']''"
| "py_repr (PDict kvs) = ''{'' @ join '', '' (repr_pairs kvs) @ ''}''"
| "repr_items [] = []"
| "repr_items (x # xs) = py_repr x # repr_items xs"
| "repr_pairs [] = []"
| "repr_pairs (kv # kvs) = (repr_str (fst kv) @ '': '' @ py_repr (snd kv)) # repr_pairs kvs"

fun py_str :: "pyval \<Rightarrow> string" where
  "py_str (PStr s) = s"
| "py_str v = py_repr v"


subsection \<open>Frames, configuration and the collaborators\<close>

text \<open>
  A data frame is known to the script by its row count (\<open>len\<close>) and its labelled
  columns; what a column holds is the library's business (\<open>'c\<close>). The configuration has
  the four entries the script reads.
\<close>

record 'c frame =
  nrows :: nat
  columns :: "(string \<times> 'c) list"

type_synonym path = "string list"

record config =
  cfg_raw_path :: path
  cfg_target :: string
  cfg_numeric :: "string list"
  cfg_categorical :: "string list"

record data_definition =
  numerical_columns :: "string list"
  categorical_columns :: "string list"

record 'c dataset =
  ds_frame :: "'c frame"
  ds_definition :: data_definition

datatype preset = DataDriftPreset | DataSummaryPreset

record snapshot =
  snapshot_dict :: pyval
  snapshot_html :: string

text \<open>
  What the script imports and does not define: the configuration loader and the project
  root of \<open>src.config\<close>, and the calls into the data-frame library, the report library
  and the clock. \<open>sample\<close> is \<open>df.sample(frac=..., random_state=...)\<close>, \<open>series_mul\<close>
  is \<open>series * factor\<close>, \<open>dataset_error\<close> is the check \<open>Dataset.from_pandas\<close> makes,
  \<open>run_metrics\<close> is what \<open>Report(metrics).run\<close> computes, and \<open>isoformat\<close> reads the
  clock as \<open>datetime.now().isoformat()\<close> does.
\<close>

record 'c lib =
  load_config :: "exn + config"
  PROJECT_ROOT :: path
  read_csv :: "path \<Rightarrow> exn + 'c frame"
  sample :: "pyval \<Rightarrow> nat \<Rightarrow> 'c frame \<Rightarrow> 'c frame"
  series_mul :: "'c \<Rightarrow> pyval \<Rightarrow> exn + 'c"
  dataset_error :: "'c frame \<Rightarrow> data_definition \<Rightarrow> exn option"
  run_metrics :: "preset list \<Rightarrow> 'c dataset option \<Rightarrow> 'c dataset \<Rightarrow> exn + snapshot"
  isoformat :: "nat \<Rightarrow> string"


subsection \<open>The state: file system, standard output, clock, report runs\<close>

text \<open>
  Paths are lists of components below the file-system root, which is the directory \<open>[]\<close>.
  A file holds an HTML report or a JSON document; the document is kept as the value that
  \<open>json.dump\<close> wrote and \<open>json.load\<close> gives back.
\<close>

datatype content = Html string | Json pyval

record 'c sys_state =
  dirs :: "path set"
  files :: "path \<rightharpoonup> content"
  stdout :: "string list"
  clock :: nat
  report_runs :: "(preset list \<times> 'c dataset option \<times> 'c dataset) list"

definition path_str :: "path \<Rightarrow> string" where
  "path_str p = concat (map (\<lambda>c. ''/'' @ c) p)"

definition is_dir :: "'c sys_state \<Rightarrow> path \<Rightarrow> bool" where
  "is_dir s p \<longleftrightarrow> p = [] \<or> p \<in> dirs s"

text \<open>\<open>Path.mkdir(parents=True, exist_ok=True)\<close>.\<close>

definition mkdir :: "path \<Rightarrow> ('c sys_state, unit) prog" where
  "mkdir p s =
     (if p \<in> dom (files s) then (Inl (FileExistsError (path_str p)), s)
      else if \<exists>q \<in> set (prefixes p). q \<in> dom (files s)
        then (Inl (NotADirectoryError (path_str p)), s)
      else (Inr (), s\<lparr>dirs := dirs s \<union> set (prefixes p)\<rparr>))"

text \<open>
  \<open>open(p, "w")\<close> followed by writing the content. No directory is created: a path
  whose parent is not a directory is refused with \<open>FileNotFoundError\<close>.
\<close>

definition write_file :: "path \<Rightarrow> content \<Rightarrow> ('c sys_state, unit) prog" where
  "write_file p c s =
     (if is_dir s p then (Inl (IsADirectoryError (path_str p)), s)
      else if \<not> is_dir s (butlast p) then (Inl (FileNotFoundError (path_str p)), s)
      else (Inr (), s\<lparr>files := (files s)(p \<mapsto> c)\<rparr>))"

definition print_line :: "string \<Rightarrow> ('c sys_state, unit) prog" where
  "print_line msg s = (Inr (), s\<lparr>stdout := stdout s @ [msg]\<rparr>)"

definition datetime_now_isoformat :: "'c lib \<Rightarrow> ('c sys_state, string) prog" where
  "datetime_now_isoformat L s = (Inr (isoformat L (clock s)), s\<lparr>clock := Suc (clock s)\<rparr>)"

definition from_pandas :: "'c lib \<Rightarrow> 'c frame \<Rightarrow> data_definition \<Rightarrow> exn + 'c dataset" where
  "from_pandas L df dd =
     (case dataset_error L df dd of
        Some e \<Rightarrow> Inl e
      | None \<Rightarrow> Inr \<lparr>ds_frame = df, ds_definition = dd\<rparr>)"

definition report_run ::
  "'c lib \<Rightarrow> preset list \<Rightarrow> 'c dataset option \<Rightarrow> 'c dataset \<Rightarrow> ('c sys_state, snapshot) prog" where
  "report_run L metrics reference_data current_data s =
     (run_metrics L metrics reference_data current_data,
      s\<lparr>report_runs := report_runs s @ [(metrics, reference_data, current_data)]\<rparr>)"

text \<open>
  \<open>run_result.save_html(filename)\<close> opens the file for writing and writes the rendered
  report.
\<close>

definition save_html :: "snapshot \<Rightarrow> path \<Rightarrow> ('c sys_state, unit) prog" where
  "save_html run_result filename = write_file filename (Html (snapshot_html run_result))"

text \<open>\<open>with open(p, "w") as f: json.dump(v, f, indent=4)\<close>.\<close>

definition json_dump :: "pyval \<Rightarrow> path \<Rightarrow> ('c sys_state, unit) prog" where
  "json_dump v p = write_file p (Json v)"


subsection \<open>The functions of the module\<close>

definition load_reference_data :: "'c lib \<Rightarrow> exn + 'c frame" where
  "load_reference_data L =
     attempt (load_config L) (\<lambda>cfg.
     let raw_path = PROJECT_ROOT L @ cfg_raw_path cfg
     in read_csv L raw_path)"

definition get_data_definition :: "'c lib \<Rightarrow> exn + data_definition" where
  "get_data_definition L =
     attempt (load_config L) (\<lambda>cfg.
     Inr \<lparr>numerical_columns = cfg_numeric cfg,
          categorical_columns = cfg_categorical cfg @ [cfg_target cfg]\<rparr>)"

text \<open>
  The loop \<open>for col in numeric_cols: if col in current_data.columns:
  current_data[col] = current_data[col] * 1.05\<close>, which both \<open>generate_drift_report\<close>
  and \<open>generate_full_monitoring_report\<close> run on the sample.
\<close>

fun shift_columns :: "'c lib \<Rightarrow> string list \<Rightarrow> 'c frame \<Rightarrow> exn + 'c frame" where
  "shift_columns L [] current_data = Inr current_data"
| "shift_columns L (col # numeric_cols) current_data =
     (case map_of (columns current_data) col of
        None \<Rightarrow> shift_columns L numeric_cols current_data
      | Some series \<Rightarrow>
          attempt (series_mul L series (PFloat ''1.05'')) (\<lambda>shifted.
          shift_columns L numeric_cols
            (current_data\<lparr>columns := AList.update col shifted (columns current_data)\<rparr>)))"

definition simulate_current :: "'c lib \<Rightarrow> config \<Rightarrow> 'c frame \<Rightarrow> exn + 'c frame" where
  "simulate_current L cfg reference_data =
     (let current_data = sample L (PFloat ''0.3'') 42 reference_data;
          numeric_cols = cfg_numeric cfg
      in shift_columns L numeric_cols current_data)"

text \<open>The loop over \<open>metric_results\<close> that fills the drift fields of the summary.\<close>

fun extract_drift :: "pyval list \<Rightarrow> pydict \<Rightarrow> exn + pydict" where
  "extract_drift [] summary = Inr summary"
| "extract_drift (metric # metric_results) summary =
     attempt (py_get metric ''metric'' (PStr '''')) (\<lambda>m.
     let metric_id = py_str m in
     attempt (py_get metric ''result'' (PDict [])) (\<lambda>result.
     if contains ''DatasetDrift'' metric_id \<or> contains ''dataset_drift'' (py_str result)
     then
       attempt (py_get result ''dataset_drift'' (PBool False)) (\<lambda>v1.
       attempt (py_get result ''drift_share'' (PFloat ''0.0'')) (\<lambda>v2.
       attempt (py_get result ''number_of_drifted_columns'' (PInt 0)) (\<lambda>v3.
       extract_drift metric_results
         (AList.update ''number_of_drifted_columns'' v3
           (AList.update ''drift_share'' v2
             (AList.update ''dataset_drift'' v1 summary))))))
     else extract_drift metric_results summary))"

definition generate_drift_report ::
  "'c lib \<Rightarrow> 'c frame option \<Rightarrow> 'c frame option \<Rightarrow> path option \<Rightarrow> ('c sys_state, pydict) prog" where
  "generate_drift_report L current_data reference_data output_path =
     andthen (lift (load_config L)) (\<lambda>cfg.
     andthen (case reference_data of
                None \<Rightarrow> lift (load_reference_data L)
              | Some df \<Rightarrow> ret df) (\<lambda>reference_data.
     andthen (case current_data of
                None \<Rightarrow> lift (simulate_current L cfg reference_data)
              | Some df \<Rightarrow> ret df) (\<lambda>current_data.
     andthen (lift (get_data_definition L)) (\<lambda>data_definition.
     andthen (lift (from_pandas L reference_data data_definition)) (\<lambda>reference_dataset.
     andthen (lift (from_pandas L current_data data_definition)) (\<lambda>current_dataset.
     andthen (report_run L [DataDriftPreset] (Some reference_dataset) current_dataset) (\<lambda>run_result.
     andthen (case output_path of
                None \<Rightarrow>
                  (let reports_dir = PROJECT_ROOT L @ [''reports'']
                   in andthen (mkdir reports_dir) (\<lambda>_. ret (reports_dir @ [''drift_report.html''])))
              | Some p \<Rightarrow> ret p) (\<lambda>output_path.
     andthen (save_html run_result output_path) (\<lambda>_.
     andthen (print_line (''Drift report saved to: '' @ path_str output_path)) (\<lambda>_.
     let report_dict = snapshot_dict run_result in
     andthen (datetime_now_isoformat L) (\<lambda>now.
     let summary =
           [(''timestamp'', PStr now),
            (''reference_samples'', PInt (int (nrows reference_data))),
            (''current_samples'', PInt (int (nrows current_data))),
            (''report_path'', PStr (path_str output_path))] in
     andthen (lift (py_get report_dict ''metric_results'' (PList []))) (\<lambda>metric_results.
     andthen (lift (py_iter metric_results)) (\<lambda>metrics.
     lift (extract_drift metrics summary))))))))))))))"

definition generate_data_summary_report ::
  "'c lib \<Rightarrow> 'c frame option \<Rightarrow> path option \<Rightarrow> ('c sys_state, pydict) prog" where
  "generate_data_summary_report L data output_path =
     andthen (case data of
                None \<Rightarrow> lift (load_reference_data L)
              | Some df \<Rightarrow> ret df) (\<lambda>data.
     andthen (lift (get_data_definition L)) (\<lambda>data_definition.
     andthen (lift (from_pandas L data data_definition)) (\<lambda>current_dataset.
     andthen (report_run L [DataSummaryPreset] None current_dataset) (\<lambda>run_result.
     andthen (case output_path of
                None \<Rightarrow>
                  (let reports_dir = PROJECT_ROOT L @ [''reports'']
                   in andthen (mkdir reports_dir)
                        (\<lambda>_. ret (reports_dir @ [''data_summary_report.html''])))
              | Some p \<Rightarrow> ret p) (\<lambda>output_path.
     andthen (save_html run_result output_path) (\<lambda>_.
     andthen (print_line (''Data summary report saved to: '' @ path_str output_path)) (\<lambda>_.
     andthen (datetime_now_isoformat L) (\<lambda>now.
     ret [(''timestamp'', PStr now),
          (''samples'', PInt (int (nrows data))),
          (''report_path'', PStr (path_str output_path))]))))))))"

definition generate_full_monitoring_report ::
  "'c lib \<Rightarrow> 'c frame option \<Rightarrow> 'c frame option \<Rightarrow> ('c sys_state, pydict) prog" where
  "generate_full_monitoring_report L current_data reference_data =
     andthen (print_line (replicate 60 CHR ''='')) (\<lambda>_.
     andthen (print_line ''Generating Comprehensive Monitoring Reports'') (\<lambda>_.
     andthen (print_line (replicate 60 CHR ''='')) (\<lambda>_.
     andthen (case reference_data of
                None \<Rightarrow> lift (load_reference_data L)
              | Some df \<Rightarrow> ret df) (\<lambda>reference_data.
     andthen (case current_data of
                None \<Rightarrow> lift (attempt (load_config L) (\<lambda>cfg. simulate_current L cfg reference_data))
              | Some df \<Rightarrow> ret df) (\<lambda>current_data.
     andthen (datetime_now_isoformat L) (\<lambda>now.
     let results = [(''timestamp'', PStr now)] in
     andthen (print_line (CHR 0x0A # ''1. Generating Data Drift Report...'')) (\<lambda>_.
     andthen (generate_drift_report L (Some current_data) (Some reference_data) None) (\<lambda>drift_summary.
     let results = AList.update ''data_drift'' (PDict drift_summary) results in
     andthen (print_line (CHR 0x0A # ''2. Generating Data Summary Report...'')) (\<lambda>_.
     andthen (generate_data_summary_report L (Some current_data) None) (\<lambda>summary_result.
     let results = AList.update ''data_summary'' (PDict summary_result) results in
     let reports_dir = PROJECT_ROOT L @ [''reports''];
         summary_path = reports_dir @ [''monitoring_summary.json''] in
     andthen (json_dump (PDict results) summary_path) (\<lambda>_.
     andthen (print_line (CHR 0x0A # replicate 60 CHR ''='')) (\<lambda>_.
     andthen (print_line ''Monitoring Complete!'') (\<lambda>_.
     andthen (print_line (''Summary saved to: '' @ path_str summary_path)) (\<lambda>_.
     andthen (print_line (replicate 60 CHR ''='')) (\<lambda>_.
     ret results)))))))))))))))"


section \<open>Notions used to state the properties\<close>

subsection \<open>Traces of the pipeline\<close>

definition status_of :: "bool \<Rightarrow> bool \<Rightarrow> bool \<Rightarrow> status" where
  "status_of a b c = [(''preprocessing'', a), (''training'', b), (''evaluation'', c)]"

fun rank :: "step \<Rightarrow> nat" where
  "rank Preprocess = 0" | "rank Train = 1" | "rank Evaluate = 2"

definition never_raises :: "('w \<Rightarrow> (exn + 'a) \<times> 'w) \<Rightarrow> bool" where
  "never_raises d \<longleftrightarrow> (\<forall>w. \<exists>x w'. d w = (Inr x, w'))"

definition traces :: "('w run_state, 'a) prog \<Rightarrow> ((exn + 'a) \<Rightarrow> step list \<Rightarrow> bool) \<Rightarrow> bool" where
  "traces m P \<longleftrightarrow> (\<forall>s r s'. m s = (r, s') \<longrightarrow> (\<exists>new. trace s' = trace s @ new \<and> P r (invocations new)))"

definition attempts_post :: "step \<Rightarrow> nat \<Rightarrow> bool \<Rightarrow> (exn + 'a) \<Rightarrow> step list \<Rightarrow> bool" where
  "attempts_post st n ok r is \<longleftrightarrow>
     set is \<subseteq> {st} \<and> 1 \<le> length is \<and> length is \<le> Suc n \<and>
     (ok \<longrightarrow> length is = 1 \<and> (\<exists>x. r = Inr x))"

definition optional_post ::
  "step \<Rightarrow> nat \<Rightarrow> bool \<Rightarrow> bool \<Rightarrow> status \<Rightarrow> (exn + status) \<Rightarrow> step list \<Rightarrow> bool" where
  "optional_post st n ok b res r is \<longleftrightarrow>
     set is \<subseteq> {st} \<and> length is \<le> Suc n \<and> (is \<noteq> [] \<longrightarrow> b) \<and>
     (ok \<longrightarrow> r = Inr res \<and> length is = (if b then 1 else 0)) \<and>
     (\<forall>x. r = Inr x \<longrightarrow> x = res \<and> (b \<longrightarrow> 1 \<le> length is))"

definition pipeline_post ::
  "'w delegates \<Rightarrow> bool \<Rightarrow> bool \<Rightarrow> bool \<Rightarrow> (exn + status) \<Rightarrow> step list \<Rightarrow> bool" where
  "pipeline_post D a b c r is \<longleftrightarrow>
     sorted (map rank is) \<and>
     count_list is Preprocess \<le> 3 \<and> count_list is Train \<le> 2 \<and> count_list is Evaluate \<le> 1 \<and>
     (count_list is Preprocess \<noteq> 0 \<longrightarrow> a) \<and> (count_list is Train \<noteq> 0 \<longrightarrow> b) \<and>
     (count_list is Evaluate \<noteq> 0 \<longrightarrow> c) \<and>
     (\<forall>res. r = Inr res \<longrightarrow>
        res = status_of a b c \<and> (a \<longrightarrow> 1 \<le> count_list is Preprocess) \<and>
        (b \<longrightarrow> 1 \<le> count_list is Train) \<and> (c \<longrightarrow> 1 \<le> count_list is Evaluate)) \<and>
     (never_raises (preprocess D) \<and> never_raises (train D) \<and> never_raises (evaluate D) \<longrightarrow>
        r = Inr (status_of a b c) \<and>
        is = (if a then [Preprocess] else []) @ (if b then [Train] else []) @ (if c then [Evaluate] else []))"

subsection \<open>Example delegates\<close>

text \<open>
  Delegates over a world that counts the calls made so far: one that always returns, one
  whose training fails on the first call only, and one whose training fails on the first
  two calls and whose preprocessing and evaluation always fail.
\<close>

definition no_splits :: splits where
  "no_splits = (\<lparr>shape0 = 0\<rparr>, \<lparr>shape0 = 0\<rparr>, \<lparr>shape0 = 0\<rparr>, \<lparr>shape0 = 0\<rparr>)"

definition steady_delegates :: "nat delegates" where
  "steady_delegates =
     \<lparr>preprocess = (\<lambda>w. (Inr no_splits, Suc w)),
      train = (\<lambda>w. (Inr (), Suc w)),
      evaluate = (\<lambda>w. (Inr (), Suc w))\<rparr>"

definition flaky_delegates :: "nat delegates" where
  "flaky_delegates =
     \<lparr>preprocess = (\<lambda>w. (Inr no_splits, Suc w)),
      train = (\<lambda>w. (if w = 0 then Inl (Failure ''transient'') else Inr (), Suc w)),
      evaluate = (\<lambda>w. (Inr (), Suc w))\<rparr>"



subsection \<open>Notions for the monitoring module\<close>

text \<open>
  \<open>reference_used\<close> and \<open>current_used\<close> are the frames a call works on: the one given,
  or else the loaded reference data and the simulated current data. \<open>artifact_path\<close> is
  the path the HTML goes to. \<open>mentions_drift\<close> is the test of the extraction loop on one
  metric, \<open>result_field\<close> the field of its result or the default. The remaining
  definitions name states and values of a run; the examples are a small configuration,
  a frame of ten rows and a library whose sample keeps the first three of ten rows and
  whose column product is exact.
\<close>

definition drift_base :: "'c lib \<Rightarrow> nat \<Rightarrow> 'c frame \<Rightarrow> 'c frame \<Rightarrow> path \<Rightarrow> pydict" where
  "drift_base L t R C p =
     [(''timestamp'', PStr (isoformat L t)),
      (''reference_samples'', PInt (int (nrows R))),
      (''current_samples'', PInt (int (nrows C))),
      (''report_path'', PStr (path_str p))]"

definition reference_used :: "'c lib \<Rightarrow> 'c frame option \<Rightarrow> exn + 'c frame" where
  "reference_used L reference_data =
     (case reference_data of None \<Rightarrow> load_reference_data L | Some df \<Rightarrow> Inr df)"

definition artifact_path :: "'c lib \<Rightarrow> string \<Rightarrow> path option \<Rightarrow> path" where
  "artifact_path L name output_path =
     (case output_path of None \<Rightarrow> PROJECT_ROOT L @ [''reports'', name] | Some p \<Rightarrow> p)"

definition after_save :: "'c lib \<Rightarrow> path option \<Rightarrow> path \<Rightarrow> snapshot \<Rightarrow> 'c sys_state \<Rightarrow> 'c sys_state" where
  "after_save L output_path p snap s =
     s\<lparr>dirs := (case output_path of
                  None \<Rightarrow> dirs s \<union> set (prefixes (PROJECT_ROOT L @ [''reports'']))
                | Some _ \<Rightarrow> dirs s),
       files := (files s)(p \<mapsto> Html (snapshot_html snap))\<rparr>"

definition mentions_drift :: "pyval \<Rightarrow> bool" where
  "mentions_drift metric \<longleftrightarrow>
     (case (py_get metric ''metric'' (PStr ''''), py_get metric ''result'' (PDict [])) of
        (Inr m, Inr result) \<Rightarrow>
          contains ''DatasetDrift'' (py_str m) \<or> contains ''dataset_drift'' (py_str result)
      | _ \<Rightarrow> False)"

definition result_field :: "pyval \<Rightarrow> string \<Rightarrow> pyval \<Rightarrow> pyval" where
  "result_field metric k d =
     (case py_get metric ''result'' (PDict []) of
        Inr (PDict kvs) \<Rightarrow> (case map_of kvs k of Some v \<Rightarrow> v | None \<Rightarrow> d)
      | _ \<Rightarrow> d)"

definition drift_fields :: "pyval \<Rightarrow> (string \<rightharpoonup> pyval) \<Rightarrow> (string \<rightharpoonup> pyval)" where
  "drift_fields metric m =
     m(''dataset_drift'' \<mapsto> result_field metric ''dataset_drift'' (PBool False),
       ''drift_share'' \<mapsto> result_field metric ''drift_share'' (PFloat ''0.0''),
       ''number_of_drifted_columns'' \<mapsto> result_field metric ''number_of_drifted_columns'' (PInt 0))"


definition current_used :: "'c lib \<Rightarrow> 'c frame option \<Rightarrow> 'c frame \<Rightarrow> exn + 'c frame" where
  "current_used L current_data R =
     (case current_data of
        None \<Rightarrow> attempt (load_config L) (\<lambda>cfg. simulate_current L cfg R)
      | Some df \<Rightarrow> Inr df)"

definition banner :: "'c sys_state \<Rightarrow> 'c sys_state" where
  "banner s =
     s\<lparr>stdout := stdout s @ [replicate 60 CHR ''='',
                              ''Generating Comprehensive Monitoring Reports'',
                              replicate 60 CHR ''='']\<rparr>"

definition before_drift :: "'c sys_state \<Rightarrow> 'c sys_state" where
  "before_drift s =
     s\<lparr>clock := Suc (clock s),
       stdout := stdout s @ [replicate 60 CHR ''='',
                              ''Generating Comprehensive Monitoring Reports'',
                              replicate 60 CHR ''='',
                              CHR 0x0A # ''1. Generating Data Drift Report...'']\<rparr>"

definition before_summary :: "'c sys_state \<Rightarrow> 'c sys_state" where
  "before_summary s = s\<lparr>stdout := stdout s @ [CHR 0x0A # ''2. Generating Data Summary Report...'']\<rparr>"

definition summary_path :: "'c lib \<Rightarrow> path" where
  "summary_path L = PROJECT_ROOT L @ [''reports'', ''monitoring_summary.json'']"

definition combined :: "'c lib \<Rightarrow> nat \<Rightarrow> pydict \<Rightarrow> pydict \<Rightarrow> pydict" where
  "combined L t d sm =
     [(''timestamp'', PStr (isoformat L t)), (''data_drift'', PDict d), (''data_summary'', PDict sm)]"

definition after_dump :: "'c lib \<Rightarrow> pydict \<Rightarrow> 'c sys_state \<Rightarrow> 'c sys_state" where
  "after_dump L results s =
     s\<lparr>files := (files s)(summary_path L \<mapsto> Json (PDict results)),
       stdout := stdout s @ [CHR 0x0A # replicate 60 CHR ''='',
                              ''Monitoring Complete!'',
                              ''Summary saved to: '' @ path_str (summary_path L),
                              replicate 60 CHR ''='']\<rparr>"

definition example_config :: config where
  "example_config =
     \<lparr>cfg_raw_path = [''data'', ''kidney_disease.csv''],
      cfg_target = ''classification'',
      cfg_numeric = [''age'', ''bp''],
      cfg_categorical = [''htn'']\<rparr>"

definition example_reference :: "real list frame" where
  "example_reference =
     \<lparr>nrows = 10,
      columns = [(''age'', [40, 60, 100, 48, 51, 60, 68, 24, 52, 53]),
                 (''bp'', [80, 50, 80, 70, 80, 90, 70, 80, 100, 90]),
                 (''htn'', [1, 0, 0, 1, 0, 1, 0, 0, 1, 1])]\<rparr>"

definition example_clock :: "nat \<Rightarrow> string" where
  "example_clock n =
     (if n = 0 then ''2025-01-01T12:00:00''
      else if n = 1 then ''2025-01-01T12:00:01''
      else ''2025-01-01T12:00:02'')"

definition example_lib :: "config \<Rightarrow> pyval \<Rightarrow> real list lib" where
  "example_lib cfg report =
     \<lparr>load_config = Inr cfg,
      PROJECT_ROOT = [''project''],
      read_csv = (\<lambda>p. if p = [''project'', ''data'', ''kidney_disease.csv'']
                       then Inr example_reference else Inl (FileNotFoundError (path_str p))),
      sample = (\<lambda>frac random_state df.
                 \<lparr>nrows = 3 * nrows df div 10,
                  columns = map (\<lambda>kv. (fst kv, take (3 * nrows df div 10) (snd kv))) (columns df)\<rparr>),
      series_mul = (\<lambda>series factor. Inr (map (\<lambda>x. x * 105 / 100) series)),
      dataset_error = (\<lambda>df dd. None),
      run_metrics = (\<lambda>metrics reference_data current_data.
                      Inr \<lparr>snapshot_dict = report, snapshot_html = ''<html></html>''\<rparr>),
      isoformat = example_clock\<rparr>"

definition empty_state :: "real list sys_state" where
  "empty_state = \<lparr>dirs = {}, files = Map.empty, stdout = [], clock = 0, report_runs = []\<rparr>"

definition no_metrics :: pyval where
  "no_metrics = PDict [(''metric_results'', PList [])]"



definition repeated_config :: config where
  "repeated_config = example_config\<lparr>cfg_numeric := [''age'', ''age'']\<rparr>"

definition failing_lib :: "preset \<Rightarrow> real list lib" where
  "failing_lib broken =
     (example_lib example_config no_metrics)
       \<lparr>run_metrics := (\<lambda>metrics reference_data current_data.
          if metrics = [broken] then Inl (Failure ''report computation failed'')
          else Inr \<lparr>snapshot_dict = no_metrics, snapshot_html = ''<html></html>''\<rparr>)\<rparr>"


section \<open>Properties of pipeline.py\<close>

subsection \<open>Traces of the tasks and of the full flow\<close>

text \<open>
  \<open>traces m P\<close> says that a run of \<open>m\<close> only appends to the trace and that \<open>P\<close> relates
  its outcome to the delegate invocations it appended. The rules below follow the
  structure of a program, one rule per construct.
\<close>

lemma invocations_append: "invocations (xs @ ys) = invocations xs @ invocations ys"
  by (induction xs rule: invocations.induct) simp_all

lemma tracesI:
  "(\<And>s r s'. m s = (r, s') \<Longrightarrow> \<exists>new. trace s' = trace s @ new \<and> P r (invocations new)) \<Longrightarrow> traces m P"
  by (simp add: traces_def)

lemma tracesD:
  "traces m P \<Longrightarrow> m s = (r, s') \<Longrightarrow> \<exists>new. trace s' = trace s @ new \<and> P r (invocations new)"
  by (simp add: traces_def)

lemma traces_weaken: "traces m P \<Longrightarrow> (\<And>r is. P r is \<Longrightarrow> Q r is) \<Longrightarrow> traces m Q"
  unfolding traces_def by blast

lemma traces_ret: "traces (ret x) (\<lambda>r is. r = Inr x \<and> is = [])"
  by (rule tracesI) (auto simp: ret_def)

lemma traces_logger_info: "traces (logger_info msg) (\<lambda>r is. r = Inr () \<and> is = [])"
  by (rule tracesI) (auto simp: logger_info_def)

lemma traces_invoke:
  "traces (invoke st d) (\<lambda>r is. is = [st] \<and> (never_raises d \<longrightarrow> (\<exists>x. r = Inr x)))"
proof (rule tracesI)
  fix s :: "'a run_state" and r s'
  assume run: "invoke st d s = (r, s')"
  obtain r0 w' where d: "d (world s) = (r0, w')" by (cases "d (world s)")
  from run d have "trace s' = trace s @ [Invoked st]" and "r = r0"
    by (auto simp: invoke_def)
  moreover have "never_raises d \<Longrightarrow> \<exists>x. r0 = Inr x"
    using d unfolding never_raises_def by (metis fst_conv)
  ultimately show "\<exists>new. trace s' = trace s @ new \<and> (invocations new = [st] \<and> (never_raises d \<longrightarrow> (\<exists>x. r = Inr x)))"
    by auto
qed

lemma traces_andthen:
  assumes m: "traces m P" and f: "\<And>x. traces (f x) (Q x)"
  shows "traces (andthen m f)
           (\<lambda>r is. (\<exists>e. r = Inl e \<and> P (Inl e) is) \<or>
                    (\<exists>x is1 is2. P (Inr x) is1 \<and> Q x r is2 \<and> is = is1 @ is2))"
proof (rule tracesI)
  fix s r s'
  assume run: "andthen m f s = (r, s')"
  obtain r1 s1 where m1: "m s = (r1, s1)" by (cases "m s")
  from tracesD [OF m m1] obtain new1 where
    new1: "trace s1 = trace s @ new1" "P r1 (invocations new1)" by blast
  show "\<exists>new. trace s' = trace s @ new \<and>
          ((\<exists>e. r = Inl e \<and> P (Inl e) (invocations new)) \<or>
           (\<exists>x is1 is2. P (Inr x) is1 \<and> Q x r is2 \<and> invocations new = is1 @ is2))"
  proof (cases r1)
    case (Inl e)
    with run m1 have "r = Inl e" "s' = s1" by (auto simp: andthen_def)
    with new1 Inl show ?thesis by auto
  next
    case (Inr x)
    with run m1 have fx: "f x s1 = (r, s')" by (auto simp: andthen_def)
    from tracesD [OF f fx] obtain new2 where
      new2: "trace s' = trace s1 @ new2" "Q x r (invocations new2)" by blast
    from new1 new2 Inr have "trace s' = trace s @ (new1 @ new2)"
      and "P (Inr x) (invocations new1)" by auto
    with new2 show ?thesis by (auto simp: invocations_append)
  qed
qed

lemma traces_retries:
  assumes body: "traces body (\<lambda>r is. is = [st] \<and> (ok \<longrightarrow> (\<exists>x. r = Inr x)))"
  shows "traces (run_with_retries n d body) (attempts_post st n ok)"
proof (rule tracesI)
  fix s r s'
  show "run_with_retries n d body s = (r, s') \<Longrightarrow>
          \<exists>new. trace s' = trace s @ new \<and> attempts_post st n ok r (invocations new)"
  proof (induction n arbitrary: s)
    case 0
    then have "body s = (r, s')" by simp
    from tracesD [OF body this] show ?case
      by (auto simp: attempts_post_def)
  next
    case (Suc n)
    obtain r1 s1 where b1: "body s = (r1, s1)" by (cases "body s")
    from tracesD [OF body b1] obtain new1 where
      new1: "trace s1 = trace s @ new1" "invocations new1 = [st]" "ok \<longrightarrow> (\<exists>x. r1 = Inr x)" by blast
    show ?case
    proof (cases r1)
      case (Inr x)
      with Suc.prems b1 have "r = Inr x" "s' = s1" by auto
      with new1 show ?thesis by (auto simp: attempts_post_def)
    next
      case (Inl e)
      with new1 have notok: "\<not> ok" by auto
      from Inl Suc.prems b1
      have "run_with_retries n d body (s1\<lparr>trace := trace s1 @ [Slept d]\<rparr>) = (r, s')" by simp
      from Suc.IH [OF this] obtain new2 where
        new2: "trace s' = trace s1 @ [Slept d] @ new2" "attempts_post st n ok r (invocations new2)"
        by auto
      from new2(2) have k: "set (invocations new2) \<subseteq> {st}" "length (invocations new2) \<le> Suc n"
        by (auto simp: attempts_post_def)
      have "trace s' = trace s @ (new1 @ [Slept d] @ new2)" using new1 new2 by simp
      moreover have "invocations (new1 @ [Slept d] @ new2) = st # invocations new2"
        using new1 by (simp add: invocations_append)
      ultimately show ?thesis using k notok unfolding attempts_post_def
        by (intro exI [of _ "new1 @ [Slept d] @ new2"]) simp
    qed
  qed
qed

lemma traces_train_task:
  "traces (train_task D) (attempts_post Train 1 (never_raises (train D)))"
  unfolding train_task_def task_def train_task_options_def
  apply (simp del: One_nat_def)
  apply (rule traces_retries)
  unfolding train_body_def
  apply (rule traces_weaken)
   apply (rule traces_andthen [OF traces_logger_info])
   apply (rule traces_andthen [OF traces_invoke])
   apply (rule traces_logger_info)
  apply auto
  done

lemma traces_preprocess_task:
  "traces (preprocess_task D) (attempts_post Preprocess 2 (never_raises (preprocess D)))"
  unfolding preprocess_task_def task_def preprocess_task_options_def
  apply simp
  apply (rule traces_retries)
  unfolding preprocess_body_def
  apply (rule traces_weaken)
   apply (rule traces_andthen [OF traces_logger_info])
   apply (rule traces_andthen [OF traces_invoke])
   apply (simp only: split_def)
   apply (rule traces_andthen [OF traces_logger_info])
   apply (rule traces_ret)
  apply auto
  done

lemma traces_evaluate_task:
  "traces (evaluate_task D) (attempts_post Evaluate 0 (never_raises (evaluate D)))"
  unfolding evaluate_task_def task_def evaluate_task_options_def
  apply simp
  apply (rule traces_retries)
  unfolding evaluate_body_def
  apply (rule traces_weaken)
   apply (rule traces_andthen [OF traces_logger_info])
   apply (rule traces_andthen [OF traces_invoke])
   apply (rule traces_logger_info)
  apply auto
  done

lemma traces_optional:
  assumes t: "traces t (attempts_post st n ok)"
  shows "traces (if b then andthen t (\<lambda>_. ret v1) else ret v0)
           (optional_post st n ok b (if b then v1 else v0))"
proof (cases b)
  case False
  then show ?thesis
    by (auto intro!: traces_weaken [OF traces_ret] simp: optional_post_def)
next
  case True
  have "traces (andthen t (\<lambda>_. ret v1)) (optional_post st n ok True v1)"
    apply (rule traces_weaken)
     apply (rule traces_andthen [OF t])
     apply (rule traces_ret)
    apply (auto simp: optional_post_def attempts_post_def)
    done
  with True show ?thesis by simp
qed

lemma count_list_only:
  "set xs \<subseteq> {st} \<Longrightarrow> count_list xs x = (if x = st then length xs else 0)"
  by (induction xs) auto

lemma sorted_rank_only: "set xs \<subseteq> {st} \<Longrightarrow> sorted (map rank xs)"
  by (induction xs) auto

lemma only_length:
  "set xs \<subseteq> {st} \<Longrightarrow> length xs = (if b then 1 else 0) \<Longrightarrow> xs = (if b then [st] else [])"
  by (cases xs) (auto split: if_splits)

lemma pipeline_postI:
  assumes s0: "set is0 \<subseteq> {Preprocess}" and l0: "length is0 \<le> 3" and e0: "is0 \<noteq> [] \<longrightarrow> a"
    and s1: "set is1 \<subseteq> {Train}" and l1: "length is1 \<le> 2" and e1: "is1 \<noteq> [] \<longrightarrow> b"
    and s2: "set is2 \<subseteq> {Evaluate}" and l2: "length is2 \<le> 1" and e2: "is2 \<noteq> [] \<longrightarrow> c"
    and ret: "\<forall>res. r = Inr res \<longrightarrow> res = status_of a b c \<and> (a \<longrightarrow> 1 \<le> length is0) \<and>
                (b \<longrightarrow> 1 \<le> length is1) \<and> (c \<longrightarrow> 1 \<le> length is2)"
    and ok: "never_raises (preprocess D) \<and> never_raises (train D) \<and> never_raises (evaluate D) \<longrightarrow>
               r = Inr (status_of a b c) \<and> length is0 = (if a then 1 else 0) \<and>
               length is1 = (if b then 1 else 0) \<and> length is2 = (if c then 1 else 0)"
  shows "pipeline_post D a b c r (is0 @ is1 @ is2)"
proof -
  have r0: "\<And>x. x \<in> set is0 \<Longrightarrow> rank x = 0" using s0 by auto
  have r1: "\<And>x. x \<in> set is1 \<Longrightarrow> rank x = 1" using s1 by auto
  have r2: "\<And>x. x \<in> set is2 \<Longrightarrow> rank x = 2" using s2 by auto
  have sorted: "sorted (map rank (is0 @ is1 @ is2))"
    using s0 s1 s2 by (simp add: sorted_append sorted_rank_only r0 r1 r2)
  have c0: "count_list (is0 @ is1 @ is2) Preprocess = length is0"
    and c1: "count_list (is0 @ is1 @ is2) Train = length is1"
    and c2: "count_list (is0 @ is1 @ is2) Evaluate = length is2"
    using s0 s1 s2 by (simp_all add: count_list_only)
  have exact: "is0 @ is1 @ is2 =
      (if a then [Preprocess] else []) @ (if b then [Train] else []) @ (if c then [Evaluate] else [])"
    if "length is0 = (if a then 1 else 0)" "length is1 = (if b then 1 else 0)"
       "length is2 = (if c then 1 else 0)"
  proof -
    have "is0 = (if a then [Preprocess] else [])" by (rule only_length [OF s0 that(1)])
    moreover have "is1 = (if b then [Train] else [])" by (rule only_length [OF s1 that(2)])
    moreover have "is2 = (if c then [Evaluate] else [])" by (rule only_length [OF s2 that(3)])
    ultimately show ?thesis by (simp only:)
  qed
  have ok': "never_raises (preprocess D) \<and> never_raises (train D) \<and> never_raises (evaluate D) \<longrightarrow>
      r = Inr (status_of a b c) \<and> is0 @ is1 @ is2 =
      (if a then [Preprocess] else []) @ (if b then [Train] else []) @ (if c then [Evaluate] else [])"
    using ok exact by blast
  have e0': "length is0 \<noteq> 0 \<longrightarrow> a" and e1': "length is1 \<noteq> 0 \<longrightarrow> b"
    and e2': "length is2 \<noteq> 0 \<longrightarrow> c"
    using e0 e1 e2 by simp_all
  show ?thesis
    unfolding pipeline_post_def c0 c1 c2
    by (intro conjI sorted l0 l1 l2 e0' e1' e2' ret ok')
qed

lemma status_updates:
  "(if c then AList.update ''evaluation'' True
       (if b then AList.update ''training'' True
          (if a then AList.update ''preprocessing'' True initial_results else initial_results)
        else (if a then AList.update ''preprocessing'' True initial_results else initial_results))
    else (if b then AList.update ''training'' True
          (if a then AList.update ''preprocessing'' True initial_results else initial_results)
        else (if a then AList.update ''preprocessing'' True initial_results else initial_results)))
   = status_of a b c"
  by (simp add: initial_results_def status_of_def)

lemma traces_pipeline:
  "traces (kidney_ml_pipeline D a b c) (pipeline_post D a b c)"
  unfolding kidney_ml_pipeline_def
  apply (rule traces_weaken)
   apply (rule traces_andthen [OF traces_logger_info])
   apply (rule traces_andthen [OF traces_optional [OF traces_preprocess_task]])
   apply (rule traces_andthen [OF traces_optional [OF traces_train_task]])
   apply (rule traces_andthen [OF traces_optional [OF traces_evaluate_task]])
   apply (rule traces_andthen [OF traces_logger_info])
   apply (rule traces_ret)
  apply (simp add: optional_post_def status_updates)
  apply (elim disjE exE conjE)
  subgoal for r "is"
    using pipeline_postI [of "is" a "[]" b "[]" c r D] by simp
  subgoal for r "is" is1 is2
    using pipeline_postI [of is1 a is2 b "[]" c r D] by simp
  subgoal for r "is" is1 is2 is1a is2a
    using pipeline_postI [of is1 a is1a b is2a c r D] by simp
  subgoal for r "is" is1 is2 is1a is2a
    using pipeline_postI [of is1 a is1a b is2a c r D] by simp
  done

lemma train_body_run:
  "train_body D s =
     (case train D (world s) of
        (Inl e, w') \<Rightarrow>
          (Inl e, s\<lparr>trace := trace s @ [Info ''Starting model training with MLflow tracking...'',
                                         Invoked Train], world := w'\<rparr>)
      | (Inr u, w') \<Rightarrow>
          (Inr (), s\<lparr>trace := trace s @ [Info ''Starting model training with MLflow tracking...'',
                                         Invoked Train, Info ''Model training complete.''],
                      world := w'\<rparr>))"
  by (simp add: train_body_def andthen_def logger_info_def invoke_def split: prod.splits sum.splits)

subsection \<open>The claims about the full flow\<close>

text \<open>
  Claim C4. With the three toggles false the full flow returns the status mapping with
  the preprocessing, training and evaluation flags all false; it logs its two lines
  and invokes no delegate: the call count of each delegate and the delegates' world are
  as before the run.
\<close>

theorem all_toggles_false:
  "\<exists>s'. kidney_ml_pipeline D False False False s =
          (Inr [(''preprocessing'', False), (''training'', False), (''evaluation'', False)], s')
        \<and> trace s' = trace s @ [Info ''Starting Kidney MLOps Pipeline...'',
                                 Info ''Pipeline execution complete!'']
        \<and> call_count Preprocess (trace s') = call_count Preprocess (trace s)
        \<and> call_count Train (trace s') = call_count Train (trace s)
        \<and> call_count Evaluate (trace s') = call_count Evaluate (trace s)
        \<and> world s' = world s"
  by (simp add: kidney_ml_pipeline_def andthen_def logger_info_def ret_def initial_results_def
      call_count_def invocations_append)

text \<open>
  Claim C5 says that with only the training toggle enabled the train delegate is invoked
  exactly once. The train task is declared with one retry: a train delegate that raises
  on its first attempt and returns on its second is invoked twice, and the flow still
  returns the status mapping with training true.
\<close>

theorem train_only_counterexample:
  "fst (kidney_ml_pipeline flaky_delegates False True False \<lparr>trace = [], world = 0\<rparr>) =
      Inr [(''preprocessing'', False), (''training'', True), (''evaluation'', False)]
   \<and> call_count Train
        (trace (snd (kidney_ml_pipeline flaky_delegates False True False \<lparr>trace = [], world = 0\<rparr>))) = 2
   \<and> call_count Train
        (trace (snd (kidney_ml_pipeline flaky_delegates False True False \<lparr>trace = [], world = 0\<rparr>))) \<noteq> 1"
  by (simp add: kidney_ml_pipeline_def andthen_def logger_info_def ret_def initial_results_def
      call_count_def train_task_def task_def train_task_options_def train_body_run
      flaky_delegates_def)

text \<open>
  Claim C5, as amended. With only the training toggle enabled the flow never invokes the
  preprocess or the evaluate delegate and invokes the train delegate once or twice (one
  attempt and at most one retry); whenever it returns, the status mapping has training
  true and preprocessing and evaluation false; and when the first attempt of the train
  delegate returns, the flow returns and the train delegate was invoked exactly once.
\<close>
theorem train_only:
  assumes run: "kidney_ml_pipeline D False True False s = (r, s')"
  shows "\<exists>new. trace s' = trace s @ new
           \<and> call_count Preprocess new = 0 \<and> call_count Evaluate new = 0
           \<and> 1 \<le> call_count Train new \<and> call_count Train new \<le> 2
           \<and> (\<forall>res. r = Inr res \<longrightarrow>
                 res = [(''preprocessing'', False), (''training'', True), (''evaluation'', False)])
           \<and> (\<forall>w'. train D (world s) = (Inr (), w') \<longrightarrow>
                 r = Inr [(''preprocessing'', False), (''training'', True), (''evaluation'', False)]
                 \<and> call_count Train new = 1)"
proof -
  let ?start = "s\<lparr>trace := trace s @ [Info ''Starting Kidney MLOps Pipeline...'']\<rparr>"
  obtain r1 s1 where t: "train_task D ?start = (r1, s1)" by (cases "train_task D ?start")
  from tracesD [OF traces_train_task t] obtain new1 where
    new1: "trace s1 = trace ?start @ new1"
      "attempts_post Train 1 (never_raises (train D)) r1 (invocations new1)"
    by blast
  from new1(2) have only: "set (invocations new1) \<subseteq> {Train}"
    and len: "1 \<le> length (invocations new1)" "length (invocations new1) \<le> 2"
    by (simp_all add: attempts_post_def)
  have first: "r1 = Inr () \<and> invocations new1 = [Train]" if "train D (world s) = (Inr (), w')" for w'
    using that t new1(1)
    by (auto simp: train_task_def task_def train_task_options_def train_body_run)
  show ?thesis
  proof (cases r1)
    case (Inl e)
    with run t have "r = Inl e" "s' = s1"
      by (auto simp: kidney_ml_pipeline_def andthen_def logger_info_def ret_def)
    with new1(1) have "trace s' = trace s @ (Info ''Starting Kidney MLOps Pipeline...'' # new1)"
      by simp
    moreover have "invocations (Info ''Starting Kidney MLOps Pipeline...'' # new1) = invocations new1"
      by simp
    ultimately show ?thesis
      using only len first Inl \<open>r = Inl e\<close>
      by (intro exI [of _ "Info ''Starting Kidney MLOps Pipeline...'' # new1"])
         (auto simp: call_count_def count_list_only)
  next
    case (Inr u)
    with run t have r: "r = Inr [(''preprocessing'', False), (''training'', True), (''evaluation'', False)]"
      and s': "s' = s1\<lparr>trace := trace s1 @ [Info ''Pipeline execution complete!'']\<rparr>"
      by (auto simp: kidney_ml_pipeline_def andthen_def logger_info_def ret_def initial_results_def)
    let ?new = "Info ''Starting Kidney MLOps Pipeline...'' # new1 @ [Info ''Pipeline execution complete!'']"
    from new1(1) s' have "trace s' = trace s @ ?new" by simp
    moreover have "invocations ?new = invocations new1"
      by (simp add: invocations_append)
    ultimately show ?thesis
      using only len first r
      by (intro exI [of _ ?new]) (auto simp: call_count_def count_list_only)
  qed
qed

theorem train_only_witness:
  "kidney_ml_pipeline steady_delegates False True False \<lparr>trace = [], world = 0\<rparr> =
     (Inr [(''preprocessing'', False), (''training'', True), (''evaluation'', False)],
      \<lparr>trace = [Info ''Starting Kidney MLOps Pipeline...'',
                Info ''Starting model training with MLflow tracking...'',
                Invoked Train,
                Info ''Model training complete.'',
                Info ''Pipeline execution complete!''],
       world = 1\<rparr>)
   \<and> train steady_delegates 0 = (Inr (), 1)
   \<and> (\<exists>new. [Info ''Starting Kidney MLOps Pipeline...'',
              Info ''Starting model training with MLflow tracking...'',
              Invoked Train,
              Info ''Model training complete.'',
              Info ''Pipeline execution complete!''] = [] @ new
          \<and> call_count Preprocess new = 0 \<and> call_count Evaluate new = 0
          \<and> call_count Train new = 1)"
proof -
  have run: "kidney_ml_pipeline steady_delegates False True False \<lparr>trace = [], world = 0\<rparr> =
     (Inr [(''preprocessing'', False), (''training'', True), (''evaluation'', False)],
      \<lparr>trace = [Info ''Starting Kidney MLOps Pipeline...'',
                Info ''Starting model training with MLflow tracking...'',
                Invoked Train,
                Info ''Model training complete.'',
                Info ''Pipeline execution complete!''],
       world = 1\<rparr>)"
    by (simp add: kidney_ml_pipeline_def andthen_def logger_info_def ret_def initial_results_def
        train_task_def task_def train_task_options_def train_body_run steady_delegates_def)
  have first: "train steady_delegates 0 = (Inr (), 1)"
    by (simp add: steady_delegates_def)
  show ?thesis
    using train_only [OF run] run first by simp
qed






text \<open>
  Claim C7. For every combination of toggles and every outcome of the flow, the delegate
  invocations the run made are in the order preprocess, train, evaluate, and a delegate
  is invoked only when its toggle is on. No combination is rejected: with delegates that
  never raise, every combination returns the status mapping of its toggles after
  invoking exactly the enabled delegates, once each, in that order.
\<close>

theorem fixed_step_order:
  assumes run: "kidney_ml_pipeline D a b c s = (r, s')"
  shows "\<exists>new. trace s' = trace s @ new
           \<and> sorted (map rank (invocations new))
           \<and> (Preprocess \<in> set (invocations new) \<longrightarrow> a)
           \<and> (Train \<in> set (invocations new) \<longrightarrow> b)
           \<and> (Evaluate \<in> set (invocations new) \<longrightarrow> c)
           \<and> (\<forall>res. r = Inr res \<longrightarrow> res = status_of a b c)
           \<and> (never_raises (preprocess D) \<and> never_raises (train D) \<and> never_raises (evaluate D) \<longrightarrow>
                r = Inr (status_of a b c)
                \<and> invocations new =
                    (if a then [Preprocess] else []) @ (if b then [Train] else []) @
                    (if c then [Evaluate] else []))"
proof -
  from tracesD [OF traces_pipeline run] obtain new where
    new: "trace s' = trace s @ new" "pipeline_post D a b c r (invocations new)" by blast
  have mem: "x \<in> set (invocations new) \<Longrightarrow> count_list (invocations new) x \<noteq> 0" for x
    by (simp add: count_list_0_iff)
  from new(2) have sorted: "sorted (map rank (invocations new))"
    and pre: "Preprocess \<in> set (invocations new) \<longrightarrow> a"
    and tr: "Train \<in> set (invocations new) \<longrightarrow> b"
    and ev: "Evaluate \<in> set (invocations new) \<longrightarrow> c"
    and res: "\<forall>res. r = Inr res \<longrightarrow> res = status_of a b c"
    and ok: "never_raises (preprocess D) \<and> never_raises (train D) \<and> never_raises (evaluate D) \<longrightarrow>
                r = Inr (status_of a b c)
                \<and> invocations new =
                    (if a then [Preprocess] else []) @ (if b then [Train] else []) @
                    (if c then [Evaluate] else [])"
    unfolding pipeline_post_def using mem by blast+
  show ?thesis
    by (intro exI [of _ new] conjI new(1) sorted pre tr ev res ok)
qed

theorem fixed_step_order_witness:
  "kidney_ml_pipeline steady_delegates False True True \<lparr>trace = [], world = 0\<rparr> =
     (Inr [(''preprocessing'', False), (''training'', True), (''evaluation'', True)],
      \<lparr>trace = [Info ''Starting Kidney MLOps Pipeline...'',
                Info ''Starting model training with MLflow tracking...'',
                Invoked Train,
                Info ''Model training complete.'',
                Info ''Starting model evaluation...'',
                Invoked Evaluate,
                Info ''Model evaluation complete. Metrics saved to reports/metrics.json'',
                Info ''Pipeline execution complete!''],
       world = 2\<rparr>)
   \<and> never_raises (preprocess steady_delegates)
   \<and> never_raises (train steady_delegates)
   \<and> never_raises (evaluate steady_delegates)
   \<and> (\<exists>new. [Info ''Starting Kidney MLOps Pipeline...'',
              Info ''Starting model training with MLflow tracking...'',
              Invoked Train,
              Info ''Model training complete.'',
              Info ''Starting model evaluation...'',
              Invoked Evaluate,
              Info ''Model evaluation complete. Metrics saved to reports/metrics.json'',
              Info ''Pipeline execution complete!''] = new
          \<and> sorted (map rank (invocations new))
          \<and> invocations new = [Train, Evaluate])"
proof -
  have run: "kidney_ml_pipeline steady_delegates False True True \<lparr>trace = [], world = 0\<rparr> =
     (Inr [(''preprocessing'', False), (''training'', True), (''evaluation'', True)],
      \<lparr>trace = [Info ''Starting Kidney MLOps Pipeline...'',
                Info ''Starting model training with MLflow tracking...'',
                Invoked Train,
                Info ''Model training complete.'',
                Info ''Starting model evaluation...'',
                Invoked Evaluate,
                Info ''Model evaluation complete. Metrics saved to reports/metrics.json'',
                Info ''Pipeline execution complete!''],
       world = 2\<rparr>)"
    by (simp add: kidney_ml_pipeline_def andthen_def logger_info_def ret_def initial_results_def
        train_task_def evaluate_task_def task_def train_task_options_def evaluate_task_options_def
        train_body_run evaluate_body_def invoke_def steady_delegates_def)
  have ok: "never_raises (preprocess steady_delegates)" "never_raises (train steady_delegates)"
    "never_raises (evaluate steady_delegates)"
    by (simp_all add: never_raises_def steady_delegates_def no_splits_def)
  show ?thesis
    using fixed_step_order [OF run] run ok by (simp add: status_of_def)
qed


section \<open>Properties of monitoring/drift_detection.py\<close>

subsection \<open>Running a program step by step\<close>

lemma andthen_ret: "andthen (ret x) f s = f x s"
  by (simp add: andthen_def ret_def)

lemma andthen_lift:
  "andthen (lift r) f s = (case r of Inl e \<Rightarrow> (Inl e, s) | Inr x \<Rightarrow> f x s)"
  by (simp add: andthen_def lift_def split: sum.splits)

lemma andthen_assoc: "andthen (andthen m f) g s = andthen m (\<lambda>x. andthen (f x) g) s"
  by (simp add: andthen_def split: prod.splits sum.splits)

lemma andthen_print_line:
  "andthen (print_line msg) f s = f () (s\<lparr>stdout := stdout s @ [msg]\<rparr>)"
  by (simp add: andthen_def print_line_def)

lemma andthen_now:
  "andthen (datetime_now_isoformat L) f s = f (isoformat L (clock s)) (s\<lparr>clock := Suc (clock s)\<rparr>)"
  by (simp add: andthen_def datetime_now_isoformat_def)

lemma andthen_report_run:
  "andthen (report_run L ms r c) f s =
     (case run_metrics L ms r c of
        Inl e \<Rightarrow> (Inl e, s\<lparr>report_runs := report_runs s @ [(ms, r, c)]\<rparr>)
      | Inr x \<Rightarrow> f x (s\<lparr>report_runs := report_runs s @ [(ms, r, c)]\<rparr>))"
  by (simp add: andthen_def report_run_def split: sum.splits)

lemma andthen_option:
  "andthen (case x of None \<Rightarrow> m | Some y \<Rightarrow> g y) f s =
     (case x of None \<Rightarrow> andthen m f s | Some y \<Rightarrow> andthen (g y) f s)"
  by (simp split: option.splits)

lemma andthen_mkdir:
  "andthen (mkdir p) f s =
     (if p \<in> dom (files s) then (Inl (FileExistsError (path_str p)), s)
      else if \<exists>q \<in> set (prefixes p). q \<in> dom (files s)
        then (Inl (NotADirectoryError (path_str p)), s)
      else f () (s\<lparr>dirs := dirs s \<union> set (prefixes p)\<rparr>))"
  by (simp add: andthen_def mkdir_def)

lemma andthen_write_file:
  "andthen (write_file p c) f s =
     (if is_dir s p then (Inl (IsADirectoryError (path_str p)), s)
      else if \<not> is_dir s (butlast p) then (Inl (FileNotFoundError (path_str p)), s)
      else f () (s\<lparr>files := (files s)(p \<mapsto> c)\<rparr>))"
  by (simp add: andthen_def write_file_def)

lemmas run_simps = andthen_ret andthen_lift andthen_assoc andthen_print_line andthen_now
  andthen_report_run andthen_option andthen_mkdir andthen_write_file

subsection \<open>What a run that returns has done\<close>

text \<open>
  A run of \<open>generate_drift_report\<close> that returns has loaded the configuration, resolved
  both frames, run the drift preset, saved the HTML and filled the summary from the
  report's metric results; the state it leaves is the one written out here.
\<close>

lemma drift_report_Inr:
  assumes "generate_drift_report L current_data reference_data output_path s = (Inr summary, s')"
  shows "\<exists>cfg R C dd snap mr metrics.
           load_config L = Inr cfg
         \<and> reference_used L reference_data = Inr R
         \<and> (case current_data of None \<Rightarrow> simulate_current L cfg R | Some df \<Rightarrow> Inr df) = Inr C
         \<and> get_data_definition L = Inr dd
         \<and> run_metrics L [DataDriftPreset] (Some \<lparr>ds_frame = R, ds_definition = dd\<rparr>)
              \<lparr>ds_frame = C, ds_definition = dd\<rparr> = Inr snap
         \<and> py_get (snapshot_dict snap) ''metric_results'' (PList []) = Inr mr
         \<and> py_iter mr = Inr metrics
         \<and> extract_drift metrics
              (drift_base L (clock s) R C (artifact_path L ''drift_report.html'' output_path)) = Inr summary
         \<and> is_dir (after_save L output_path (artifact_path L ''drift_report.html'' output_path) snap s)
              (butlast (artifact_path L ''drift_report.html'' output_path))
         \<and> s' = (after_save L output_path (artifact_path L ''drift_report.html'' output_path) snap s)
                  \<lparr>stdout := stdout s @ [''Drift report saved to: '' @
                       path_str (artifact_path L ''drift_report.html'' output_path)],
                    clock := Suc (clock s),
                    report_runs := report_runs s @
                      [([DataDriftPreset], Some \<lparr>ds_frame = R, ds_definition = dd\<rparr>,
                        \<lparr>ds_frame = C, ds_definition = dd\<rparr>)]\<rparr>"
  using assms
  unfolding generate_drift_report_def reference_used_def artifact_path_def after_save_def
    drift_base_def from_pandas_def save_html_def Let_def
  by (auto simp: run_simps lift_def is_dir_def butlast_append split: sum.splits option.splits if_splits)


subsection \<open>The extraction loop and the column loop\<close>

lemma drift_fields_twice: "drift_fields m2 (drift_fields m1 f) = drift_fields m2 f"
  by (rule ext) (simp add: drift_fields_def)

lemma py_get_Inr: "py_get v k d = Inr x \<Longrightarrow> \<exists>kvs. v = PDict kvs"
  by (cases v) simp_all

lemma extract_drift_step:
  assumes "extract_drift (metric # rest) summary = Inr out"
  shows "\<exists>summary'. extract_drift rest summary' = Inr out \<and>
           (if mentions_drift metric then map_of summary' = drift_fields metric (map_of summary)
            else summary' = summary)"
proof -
  from assms obtain m where m: "py_get metric ''metric'' (PStr '''') = Inr m"
    by (auto simp: attempt_def split: sum.splits)
  from assms m obtain result where r: "py_get metric ''result'' (PDict []) = Inr result"
    by (auto simp: attempt_def Let_def split: sum.splits)
  show ?thesis
  proof (cases "mentions_drift metric")
    case False
    with assms m r show ?thesis
      by (auto simp: attempt_def Let_def mentions_drift_def)
  next
    case True
    with m r have c: "contains ''DatasetDrift'' (py_str m) \<or> contains ''dataset_drift'' (py_str result)"
      by (simp add: mentions_drift_def)
    from assms m r c obtain v1 where v1: "py_get result ''dataset_drift'' (PBool False) = Inr v1"
      by (auto simp: attempt_def Let_def split: sum.splits)
    then obtain kvs where kvs: "result = PDict kvs" by (auto dest: py_get_Inr)
    let ?s' = "AList.update ''number_of_drifted_columns''
                 (result_field metric ''number_of_drifted_columns'' (PInt 0))
                 (AList.update ''drift_share'' (result_field metric ''drift_share'' (PFloat ''0.0''))
                   (AList.update ''dataset_drift''
                      (result_field metric ''dataset_drift'' (PBool False)) summary))"
    from assms m r c kvs have "extract_drift rest ?s' = Inr out"
      by (simp add: attempt_def Let_def result_field_def)
    moreover have "map_of ?s' = drift_fields metric (map_of summary)"
      by (simp add: update_conv' drift_fields_def)
    ultimately show ?thesis using True by auto
  qed
qed

lemma extract_drift_fields:
  "extract_drift metrics summary = Inr out \<Longrightarrow>
     (case rev (filter mentions_drift metrics) of
        [] \<Rightarrow> out = summary
      | metric # _ \<Rightarrow> map_of out = drift_fields metric (map_of summary))"
proof (induction metrics arbitrary: summary)
  case Nil
  then show ?case by simp
next
  case (Cons metric rest)
  from extract_drift_step [OF Cons.prems] obtain summary' where
    rest: "extract_drift rest summary' = Inr out"
    and step: "if mentions_drift metric then map_of summary' = drift_fields metric (map_of summary)
               else summary' = summary"
    by blast
  note IH = Cons.IH [OF rest]
  show ?case
  proof (cases "rev (filter mentions_drift rest)")
    case Nil
    with IH have "out = summary'" by simp
    with step Nil show ?thesis by (auto split: if_splits)
  next
    case (Cons last_metric others)
    with IH have "map_of out = drift_fields last_metric (map_of summary')" by simp
    with step have "map_of out = drift_fields last_metric (map_of summary)"
      by (auto simp: drift_fields_twice split: if_splits)
    with Cons show ?thesis by simp
  qed
qed

lemma shift_columns_shape:
  "shift_columns L cols f = Inr f' \<Longrightarrow>
     nrows f' = nrows f \<and> map fst (columns f') = map fst (columns f)"
proof (induction cols arbitrary: f)
  case Nil
  then show ?case by simp
next
  case (Cons col cols)
  show ?case
  proof (cases "map_of (columns f) col")
    case None
    with Cons show ?thesis by simp
  next
    case (Some series)
    with Cons.prems obtain shifted where
      rest: "shift_columns L cols (f\<lparr>columns := AList.update col shifted (columns f)\<rparr>) = Inr f'"
      by (auto simp: attempt_def split: sum.splits)
    from Some have "(col, series) \<in> set (columns f)" by (rule map_of_SomeD)
    then have "col \<in> fst ` set (columns f)" by force
    then have "map fst (AList.update col shifted (columns f)) = map fst (columns f)"
      by (simp add: update_keys)
    with Cons.IH [OF rest] show ?thesis by simp
  qed
qed

lemma shift_columns_lookup:
  "distinct cols \<Longrightarrow> shift_columns L cols f = Inr f' \<Longrightarrow>
     (name \<notin> set cols \<longrightarrow> map_of (columns f') name = map_of (columns f) name) \<and>
     (name \<in> set cols \<longrightarrow>
        (case map_of (columns f) name of
           None \<Rightarrow> map_of (columns f') name = None
         | Some series \<Rightarrow> \<exists>shifted. series_mul L series (PFloat ''1.05'') = Inr shifted \<and>
                            map_of (columns f') name = Some shifted))"
proof (induction cols arbitrary: f)
  case Nil
  then show ?case by simp
next
  case (Cons col cols)
  then have d: "distinct cols" and notin: "col \<notin> set cols" by simp_all
  show ?case
  proof (cases "map_of (columns f) col")
    case None
    with Cons.prems have rest: "shift_columns L cols f = Inr f'" by simp
    from Cons.IH [OF d rest] None notin show ?thesis by auto
  next
    case (Some series)
    with Cons.prems obtain shifted where
      mul: "series_mul L series (PFloat ''1.05'') = Inr shifted" and
      rest: "shift_columns L cols (f\<lparr>columns := AList.update col shifted (columns f)\<rparr>) = Inr f'"
      by (auto simp: attempt_def split: sum.splits)
    note IH = Cons.IH [OF d rest]
    show ?thesis
    proof (cases "name = col")
      case True
      with IH Some notin mul show ?thesis by (simp add: update_conv')
    next
      case False
      with IH show ?thesis by (simp add: update_conv')
    qed
  qed
qed





lemma summary_report_Inr:
  assumes "generate_data_summary_report L data output_path s = (Inr summary, s')"
  shows "\<exists>R dd snap.
           reference_used L data = Inr R
         \<and> get_data_definition L = Inr dd
         \<and> run_metrics L [DataSummaryPreset] None \<lparr>ds_frame = R, ds_definition = dd\<rparr> = Inr snap
         \<and> summary =
             [(''timestamp'', PStr (isoformat L (clock s))),
              (''samples'', PInt (int (nrows R))),
              (''report_path'', PStr (path_str (artifact_path L ''data_summary_report.html'' output_path)))]
         \<and> is_dir (after_save L output_path (artifact_path L ''data_summary_report.html'' output_path) snap s)
              (butlast (artifact_path L ''data_summary_report.html'' output_path))
         \<and> s' = (after_save L output_path (artifact_path L ''data_summary_report.html'' output_path) snap s)
                  \<lparr>stdout := stdout s @ [''Data summary report saved to: '' @
                       path_str (artifact_path L ''data_summary_report.html'' output_path)],
                    clock := Suc (clock s),
                    report_runs := report_runs s @
                      [([DataSummaryPreset], None, \<lparr>ds_frame = R, ds_definition = dd\<rparr>)]\<rparr>"
  using assms
  unfolding generate_data_summary_report_def reference_used_def artifact_path_def after_save_def
    from_pandas_def save_html_def Let_def
  by (auto simp: run_simps lift_def ret_def is_dir_def butlast_append
      split: sum.splits option.splits if_splits)

lemma full_report_unfold:
  "generate_full_monitoring_report L current_data reference_data s =
     (case reference_used L reference_data of
        Inl e \<Rightarrow> (Inl e, banner s)
      | Inr R \<Rightarrow>
          (case current_used L current_data R of
             Inl e \<Rightarrow> (Inl e, banner s)
           | Inr C \<Rightarrow>
               (case generate_drift_report L (Some C) (Some R) None (before_drift s) of
                  (Inl e, s1) \<Rightarrow> (Inl e, s1)
                | (Inr d, s1) \<Rightarrow>
                    (case generate_data_summary_report L (Some C) None (before_summary s1) of
                       (Inl e, s2) \<Rightarrow> (Inl e, s2)
                     | (Inr sm, s2) \<Rightarrow>
                         (if is_dir s2 (summary_path L)
                            then (Inl (IsADirectoryError (path_str (summary_path L))), s2)
                          else if \<not> is_dir s2 (PROJECT_ROOT L @ [''reports''])
                            then (Inl (FileNotFoundError (path_str (summary_path L))), s2)
                          else (Inr (combined L (clock s) d sm),
                                after_dump L (combined L (clock s) d sm) s2))))))"
  unfolding generate_full_monitoring_report_def reference_used_def current_used_def banner_def
    before_drift_def before_summary_def summary_path_def combined_def after_dump_def json_dump_def
    Let_def
  by (simp add: run_simps lift_def ret_def butlast_append andthen_def [of "generate_drift_report _ _ _ _"]
      andthen_def [of "generate_data_summary_report _ _ _"]
      split: sum.splits option.splits prod.splits)

subsection \<open>What the two report steps leave alone\<close>

lemma drift_report_keeps:
  assumes "generate_drift_report L current_data reference_data None s = (r, s')"
  shows "files s' (summary_path L) = files s (summary_path L)
       \<and> filter (\<lambda>x. fst x = [DataSummaryPreset]) (report_runs s') =
           filter (\<lambda>x. fst x = [DataSummaryPreset]) (report_runs s)
       \<and> filter (\<lambda>l. l = CHR 0x0A # ''2. Generating Data Summary Report...'') (stdout s') =
           filter (\<lambda>l. l = CHR 0x0A # ''2. Generating Data Summary Report...'') (stdout s)"
  using assms
  unfolding generate_drift_report_def summary_path_def from_pandas_def save_html_def Let_def
  by (auto simp: run_simps lift_def split: sum.splits option.splits if_splits)

lemma summary_report_keeps:
  assumes "generate_data_summary_report L data None s = (r, s')"
  shows "files s' (summary_path L) = files s (summary_path L)"
  using assms
  unfolding generate_data_summary_report_def summary_path_def from_pandas_def save_html_def Let_def
  by (auto simp: run_simps lift_def ret_def split: sum.splits option.splits if_splits)

lemma drift_report_explicit:
  assumes "generate_drift_report L current_data reference_data (Some p) s = (r, s')"
  shows "dirs s' = dirs s
       \<and> (\<not> is_dir s (butlast p) \<longrightarrow> (\<exists>e. r = Inl e) \<and> files s' = files s)"
  using assms
  unfolding generate_drift_report_def from_pandas_def save_html_def Let_def
  by (auto simp: run_simps lift_def is_dir_def split: sum.splits option.splits if_splits)

lemma summary_report_explicit:
  assumes "generate_data_summary_report L data (Some p) s = (r, s')"
  shows "dirs s' = dirs s
       \<and> (\<not> is_dir s (butlast p) \<longrightarrow> (\<exists>e. r = Inl e) \<and> files s' = files s)"
  using assms
  unfolding generate_data_summary_report_def from_pandas_def save_html_def Let_def
  by (auto simp: run_simps lift_def ret_def is_dir_def split: sum.splits option.splits if_splits)

lemmas example_defs = example_config_def example_reference_def example_clock_def example_lib_def
  empty_state_def no_metrics_def

subsection \<open>The claims about the monitoring module\<close>

lemma full_report_Inr:
  assumes "generate_full_monitoring_report L current_data reference_data s = (Inr results, s')"
  shows "\<exists>R C d s1 sm s2.
           reference_used L reference_data = Inr R
         \<and> current_used L current_data R = Inr C
         \<and> generate_drift_report L (Some C) (Some R) None (before_drift s) = (Inr d, s1)
         \<and> generate_data_summary_report L (Some C) None (before_summary s1) = (Inr sm, s2)
         \<and> results = combined L (clock s) d sm
         \<and> s' = after_dump L results s2"
  using assms unfolding full_report_unfold
  by (auto split: sum.splits prod.splits if_splits)

lemma extract_drift_other:
  assumes "extract_drift metrics summary = Inr out"
    and "k \<noteq> ''dataset_drift''" "k \<noteq> ''drift_share''" "k \<noteq> ''number_of_drifted_columns''"
  shows "map_of out k = map_of summary k"
  using extract_drift_fields [OF assms(1)] assms(2-)
  by (cases "rev (filter mentions_drift metrics)") (simp_all add: drift_fields_def)

lemma drift_report_samples:
  assumes "generate_drift_report L (Some C) (Some R) output_path s = (Inr d, s')"
  shows "map_of d ''reference_samples'' = Some (PInt (int (nrows R)))"
    and "map_of d ''current_samples'' = Some (PInt (int (nrows C)))"
proof -
  from drift_report_Inr [OF assms] obtain t p metrics where
    ex: "extract_drift metrics (drift_base L t R C p) = Inr d"
    by (auto simp: reference_used_def)
  show "map_of d ''reference_samples'' = Some (PInt (int (nrows R)))"
    using extract_drift_other [OF ex, of "''reference_samples''"] by (simp add: drift_base_def)
  show "map_of d ''current_samples'' = Some (PInt (int (nrows C)))"
    using extract_drift_other [OF ex, of "''current_samples''"] by (simp add: drift_base_def)
qed





text \<open>
  Claim C3 says every configured numeric column of the synthesized dataset is the
  sample's column multiplied by 1.05. The loop multiplies once per entry of the
  configured list: with the name \<open>age\<close> listed twice, the column is multiplied twice.
\<close>
theorem simulated_current_counterexample:
  "sample (example_lib repeated_config no_metrics) (PFloat ''0.3'') 42 example_reference =
     \<lparr>nrows = 3,
      columns = [(''age'', [40, 60, 100]), (''bp'', [80, 50, 80]), (''htn'', [1, 0, 0])]\<rparr>
   \<and> series_mul (example_lib repeated_config no_metrics) [40, 60, 100] (PFloat ''1.05'') =
       Inr [42, 63, 105]
   \<and> simulate_current (example_lib repeated_config no_metrics) repeated_config example_reference =
       Inr \<lparr>nrows = 3,
            columns = [(''age'', [441 / 10, 1323 / 20, 441 / 4]), (''bp'', [80, 50, 80]),
                       (''htn'', [1, 0, 0])]\<rparr>
   \<and> [441 / 10, 1323 / 20, 441 / 4] \<noteq> [42, 63, 105 :: real]"
  by (simp add: simulate_current_def repeated_config_def example_defs attempt_def)

text \<open>
  Claim C3, as amended. When the configured numeric feature names are distinct, the
  synthesized current dataset has the rows and the column labels of the sample
  \<open>sample(frac=0.3, random_state=42)\<close> of the reference dataset, each configured numeric
  column present in the sample is the sample's column times 1.05, and every other column
  is the sample's. The dataset is a function of the configuration and the reference
  dataset alone: from any state, the drift report and the orchestrator called without a
  current dataset run exactly as when called with this one.
\<close>
theorem simulated_current:
  assumes cfg: "load_config L = Inr cfg"
    and names: "distinct (cfg_numeric cfg)"
    and R: "reference_used L reference_data = Inr R"
    and C: "simulate_current L cfg R = Inr C"
  shows "nrows C = nrows (sample L (PFloat ''0.3'') 42 R)
       \<and> map fst (columns C) = map fst (columns (sample L (PFloat ''0.3'') 42 R))
       \<and> (\<forall>name.
            map_of (columns C) name =
              (case map_of (columns (sample L (PFloat ''0.3'') 42 R)) name of
                 None \<Rightarrow> None
               | Some series \<Rightarrow>
                   if name \<in> set (cfg_numeric cfg)
                   then (case series_mul L series (PFloat ''1.05'') of
                           Inr shifted \<Rightarrow> Some shifted
                         | Inl _ \<Rightarrow> None)
                   else Some series))
       \<and> (\<forall>output_path s.
            generate_drift_report L None reference_data output_path s =
            generate_drift_report L (Some C) reference_data output_path s)
       \<and> (\<forall>s. generate_full_monitoring_report L None reference_data s =
               generate_full_monitoring_report L (Some C) reference_data s)"
proof -
  let ?smp = "sample L (PFloat ''0.3'') 42 R"
  from C have shift: "shift_columns L (cfg_numeric cfg) ?smp = Inr C"
    by (simp add: simulate_current_def)
  note shape = shift_columns_shape [OF shift]
  have cols: "map_of (columns C) name =
              (case map_of (columns ?smp) name of
                 None \<Rightarrow> None
               | Some series \<Rightarrow>
                   if name \<in> set (cfg_numeric cfg)
                   then (case series_mul L series (PFloat ''1.05'') of
                           Inr shifted \<Rightarrow> Some shifted
                         | Inl _ \<Rightarrow> None)
                   else Some series)" for name
    using shift_columns_lookup [OF names shift, of name]
    by (auto split: option.splits)
  have drift: "generate_drift_report L None reference_data output_path s =
            generate_drift_report L (Some C) reference_data output_path s" for output_path s
    using cfg R C unfolding generate_drift_report_def reference_used_def
    by (cases reference_data) (simp_all add: run_simps lift_def)
  have full: "generate_full_monitoring_report L None reference_data s =
               generate_full_monitoring_report L (Some C) reference_data s" for s
    using cfg R C unfolding full_report_unfold
    by (simp add: current_used_def attempt_def)
  from shape cols drift full show ?thesis by blast
qed

theorem simulated_current_witness:
  "load_config (example_lib example_config no_metrics) = Inr example_config
   \<and> distinct (cfg_numeric example_config)
   \<and> reference_used (example_lib example_config no_metrics) None = Inr example_reference
   \<and> simulate_current (example_lib example_config no_metrics) example_config example_reference =
       Inr \<lparr>nrows = 3,
            columns = [(''age'', [42, 63, 105]), (''bp'', [84, 105 / 2, 84]), (''htn'', [1, 0, 0])]\<rparr>
   \<and> (\<forall>s. generate_full_monitoring_report (example_lib example_config no_metrics) None None s =
           generate_full_monitoring_report (example_lib example_config no_metrics)
             (Some \<lparr>nrows = 3,
                    columns = [(''age'', [42, 63, 105]), (''bp'', [84, 105 / 2, 84]),
                               (''htn'', [1, 0, 0])]\<rparr>) None s)"
proof -
  let ?L = "example_lib example_config no_metrics"
  have cfg: "load_config ?L = Inr example_config"
    by (simp add: example_lib_def)
  have names: "distinct (cfg_numeric example_config)"
    by (simp add: example_config_def)
  have R: "reference_used ?L None = Inr example_reference"
    by (simp add: reference_used_def load_reference_data_def attempt_def example_lib_def
        example_config_def)
  have C: "simulate_current ?L example_config example_reference =
       Inr \<lparr>nrows = 3,
            columns = [(''age'', [42, 63, 105]), (''bp'', [84, 105 / 2, 84]), (''htn'', [1, 0, 0])]\<rparr>"
    by (simp add: simulate_current_def example_defs attempt_def)
  from simulated_current [OF cfg names R C] cfg names R C show ?thesis by blast
qed

text \<open>
  Claim C2. After a run of the orchestrator that returns, \<open>reports/monitoring_summary.json\<close>
  holds the returned mapping; its keys are exactly \<open>timestamp\<close>, \<open>data_drift\<close>,
  \<open>data_summary\<close> in that order; \<open>data_drift\<close> and \<open>data_summary\<close> are non-empty
  mappings; and \<open>data_drift\<close> has \<open>reference_samples\<close> and \<open>current_samples\<close> equal to
  the row counts of the reference and the current dataset the run used.
\<close>
theorem monitoring_summary_file:
  assumes run: "generate_full_monitoring_report L current_data reference_data s = (Inr results, s')"
  shows "\<exists>R C ts dd ds.
           reference_used L reference_data = Inr R
         \<and> current_used L current_data R = Inr C
         \<and> files s' (PROJECT_ROOT L @ [''reports'', ''monitoring_summary.json'']) =
             Some (Json (PDict results))
         \<and> results = [(''timestamp'', PStr ts), (''data_drift'', PDict dd), (''data_summary'', PDict ds)]
         \<and> dd \<noteq> [] \<and> ds \<noteq> []
         \<and> map_of dd ''reference_samples'' = Some (PInt (int (nrows R)))
         \<and> map_of dd ''current_samples'' = Some (PInt (int (nrows C)))"
proof -
  from full_report_Inr [OF run] obtain R C d s1 sm s2 where
    R: "reference_used L reference_data = Inr R"
    and C: "current_used L current_data R = Inr C"
    and drift: "generate_drift_report L (Some C) (Some R) None (before_drift s) = (Inr d, s1)"
    and summ: "generate_data_summary_report L (Some C) None (before_summary s1) = (Inr sm, s2)"
    and results: "results = combined L (clock s) d sm"
    and s': "s' = after_dump L results s2"
    by blast
  note samples = drift_report_samples [OF drift]
  from samples(1) have d: "d \<noteq> []" by auto
  from summary_report_Inr [OF summ] have sm: "sm \<noteq> []" by auto
  from s' have written: "files s' (PROJECT_ROOT L @ [''reports'', ''monitoring_summary.json'']) =
      Some (Json (PDict results))"
    by (simp add: after_dump_def summary_path_def)
  from results have "results =
      [(''timestamp'', PStr (isoformat L (clock s))), (''data_drift'', PDict d),
       (''data_summary'', PDict sm)]"
    by (simp add: combined_def)
  with R C written d sm samples show ?thesis by blast
qed

theorem monitoring_summary_file_witness:
  "\<exists>results s'.
     generate_full_monitoring_report (example_lib example_config no_metrics) None None empty_state =
       (Inr results, s')
   \<and> reference_used (example_lib example_config no_metrics) None = Inr example_reference
   \<and> files s' [''project'', ''reports'', ''monitoring_summary.json''] = Some (Json (PDict results))
   \<and> map fst results = [''timestamp'', ''data_drift'', ''data_summary'']"
proof -
  let ?L = "example_lib example_config no_metrics"
  have R: "reference_used ?L None = Inr example_reference"
    by (simp add: reference_used_def load_reference_data_def attempt_def example_lib_def
        example_config_def)
  obtain results s' where
    run: "generate_full_monitoring_report ?L None None empty_state = (Inr results, s')"
    by (simp add: generate_full_monitoring_report_def generate_drift_report_def
      generate_data_summary_report_def example_defs run_simps lift_def ret_def attempt_def
      load_reference_data_def simulate_current_def json_dump_def Let_def
      get_data_definition_def from_pandas_def save_html_def is_dir_def path_str_def)
  from monitoring_summary_file [OF run] R run show ?thesis
    by (auto simp: example_lib_def)
qed

lemma before_drift_keeps:
  "files (before_drift s) = files s"
  "report_runs (before_drift s) = report_runs s"
  "filter (\<lambda>l. l = CHR 0x0A # ''2. Generating Data Summary Report...'') (stdout (before_drift s)) =
   filter (\<lambda>l. l = CHR 0x0A # ''2. Generating Data Summary Report...'') (stdout s)"
  by (simp_all add: before_drift_def eval_nat_numeral)

text \<open>
  Claim C8. \<open>before_drift s\<close> is the state in which the orchestrator started from \<open>s\<close>
  calls the drift step, \<open>before_summary s1\<close> the one in which it calls the summary step
  after the drift step left \<open>s1\<close>. If the drift step raises, the orchestrator raises the
  same exception in the state the drift step left: the summary preset was not run, the
  line announcing the summary step was not printed and \<open>monitoring_summary.json\<close> is as
  it was. If the summary step raises, the orchestrator raises the same exception and
  \<open>monitoring_summary.json\<close> is as it was.
\<close>
theorem orchestration_aborts:
  assumes R: "reference_used L reference_data = Inr R"
    and C: "current_used L current_data R = Inr C"
  shows "(\<forall>e s1.
            generate_drift_report L (Some C) (Some R) None (before_drift s) = (Inl e, s1) \<longrightarrow>
              generate_full_monitoring_report L current_data reference_data s = (Inl e, s1)
            \<and> filter (\<lambda>x. fst x = [DataSummaryPreset]) (report_runs s1) =
                filter (\<lambda>x. fst x = [DataSummaryPreset]) (report_runs s)
            \<and> filter (\<lambda>l. l = CHR 0x0A # ''2. Generating Data Summary Report...'') (stdout s1) =
                filter (\<lambda>l. l = CHR 0x0A # ''2. Generating Data Summary Report...'') (stdout s)
            \<and> files s1 (PROJECT_ROOT L @ [''reports'', ''monitoring_summary.json'']) =
                files s (PROJECT_ROOT L @ [''reports'', ''monitoring_summary.json'']))
       \<and> (\<forall>d s1 e s2.
            generate_drift_report L (Some C) (Some R) None (before_drift s) = (Inr d, s1) \<longrightarrow>
            generate_data_summary_report L (Some C) None (before_summary s1) = (Inl e, s2) \<longrightarrow>
              generate_full_monitoring_report L current_data reference_data s = (Inl e, s2)
            \<and> files s2 (PROJECT_ROOT L @ [''reports'', ''monitoring_summary.json'']) =
                files s (PROJECT_ROOT L @ [''reports'', ''monitoring_summary.json'']))"
proof (intro conjI allI impI)
  fix e s1
  assume drift: "generate_drift_report L (Some C) (Some R) None (before_drift s) = (Inl e, s1)"
  show "generate_full_monitoring_report L current_data reference_data s = (Inl e, s1)"
    unfolding full_report_unfold using R C drift by simp
  from drift_report_keeps [OF drift]
  show "filter (\<lambda>x. fst x = [DataSummaryPreset]) (report_runs s1) =
        filter (\<lambda>x. fst x = [DataSummaryPreset]) (report_runs s)"
    and "filter (\<lambda>l. l = CHR 0x0A # ''2. Generating Data Summary Report...'') (stdout s1) =
         filter (\<lambda>l. l = CHR 0x0A # ''2. Generating Data Summary Report...'') (stdout s)"
    and "files s1 (PROJECT_ROOT L @ [''reports'', ''monitoring_summary.json'']) =
         files s (PROJECT_ROOT L @ [''reports'', ''monitoring_summary.json''])"
    by (simp_all add: before_drift_keeps summary_path_def)
next
  fix d s1 e s2
  assume drift: "generate_drift_report L (Some C) (Some R) None (before_drift s) = (Inr d, s1)"
    and summ: "generate_data_summary_report L (Some C) None (before_summary s1) = (Inl e, s2)"
  show "generate_full_monitoring_report L current_data reference_data s = (Inl e, s2)"
    unfolding full_report_unfold using R C drift summ by simp
  from drift_report_keeps [OF drift] summary_report_keeps [OF summ]
  show "files s2 (PROJECT_ROOT L @ [''reports'', ''monitoring_summary.json'']) =
        files s (PROJECT_ROOT L @ [''reports'', ''monitoring_summary.json''])"
    by (simp add: before_drift_keeps before_summary_def summary_path_def)
qed

theorem orchestration_aborts_witness:
  "(\<exists>s1. generate_full_monitoring_report (failing_lib DataDriftPreset) None None empty_state =
          (Inl (Failure ''report computation failed''), s1)
      \<and> filter (\<lambda>x. fst x = [DataSummaryPreset]) (report_runs s1) = []
      \<and> files s1 [''project'', ''reports'', ''monitoring_summary.json''] = None)
   \<and> (\<exists>s2. generate_full_monitoring_report (failing_lib DataSummaryPreset) None None empty_state =
          (Inl (Failure ''report computation failed''), s2)
      \<and> files s2 [''project'', ''reports'', ''monitoring_summary.json''] = None)"
proof -
  let ?C = "\<lparr>nrows = 3,
            columns = [(''age'', [42, 63, 105]), (''bp'', [84, 105 / 2, 84]), (''htn'', [1, 0, 0])]\<rparr>"
  have R: "reference_used (failing_lib broken) None = Inr example_reference" for broken
    by (simp add: reference_used_def load_reference_data_def attempt_def failing_lib_def
        example_lib_def example_config_def)
  have C: "current_used (failing_lib broken) None example_reference = Inr ?C" for broken
    by (simp add: current_used_def simulate_current_def failing_lib_def example_defs attempt_def)
  obtain s1 where drift: "generate_drift_report (failing_lib DataDriftPreset) (Some ?C)
      (Some example_reference) None (before_drift empty_state) =
      (Inl (Failure ''report computation failed''), s1)"
    by (simp add: generate_drift_report_def failing_lib_def example_defs run_simps lift_def
        attempt_def get_data_definition_def from_pandas_def)
  from orchestration_aborts [OF R C, of DataDriftPreset empty_state] drift
  have "generate_full_monitoring_report (failing_lib DataDriftPreset) None None empty_state =
          (Inl (Failure ''report computation failed''), s1)
      \<and> filter (\<lambda>x. fst x = [DataSummaryPreset]) (report_runs s1) =
          filter (\<lambda>x. fst x = [DataSummaryPreset]) (report_runs empty_state)
      \<and> files s1 (PROJECT_ROOT (failing_lib DataDriftPreset) @
            [''reports'', ''monitoring_summary.json'']) =
          files empty_state (PROJECT_ROOT (failing_lib DataDriftPreset) @
            [''reports'', ''monitoring_summary.json''])"
    by blast
  then have first: "\<exists>s1. generate_full_monitoring_report (failing_lib DataDriftPreset) None None
          empty_state = (Inl (Failure ''report computation failed''), s1)
      \<and> filter (\<lambda>x. fst x = [DataSummaryPreset]) (report_runs s1) = []
      \<and> files s1 [''project'', ''reports'', ''monitoring_summary.json''] = None"
    by (simp add: empty_state_def failing_lib_def example_lib_def)
  obtain d t1 where drift_ok: "generate_drift_report (failing_lib DataSummaryPreset) (Some ?C)
      (Some example_reference) None (before_drift empty_state) = (Inr d, t1)"
    by (simp add: generate_drift_report_def failing_lib_def example_defs run_simps lift_def
        attempt_def get_data_definition_def from_pandas_def save_html_def is_dir_def path_str_def
        before_drift_def)
  obtain s2 where summ: "generate_data_summary_report (failing_lib DataSummaryPreset) (Some ?C)
      None (before_summary t1) = (Inl (Failure ''report computation failed''), s2)"
    by (simp add: generate_data_summary_report_def failing_lib_def example_defs run_simps lift_def
        attempt_def get_data_definition_def from_pandas_def)
  from orchestration_aborts [OF R C, of DataSummaryPreset empty_state] drift_ok summ
  have "generate_full_monitoring_report (failing_lib DataSummaryPreset) None None empty_state =
          (Inl (Failure ''report computation failed''), s2)
      \<and> files s2 (PROJECT_ROOT (failing_lib DataSummaryPreset) @
            [''reports'', ''monitoring_summary.json'']) =
          files empty_state (PROJECT_ROOT (failing_lib DataSummaryPreset) @
            [''reports'', ''monitoring_summary.json''])"
    by blast
  then have second: "\<exists>s2. generate_full_monitoring_report (failing_lib DataSummaryPreset) None None
          empty_state = (Inl (Failure ''report computation failed''), s2)
      \<and> files s2 [''project'', ''reports'', ''monitoring_summary.json''] = None"
    by (simp add: empty_state_def failing_lib_def example_lib_def)
  from first second show ?thesis by blast
qed

text \<open>
  Claim C9 says the directories of the output path are created also when the caller
  gives the path. With the path \<open>/out/drift_report.html\<close> and no directory \<open>/out\<close>, the
  drift report raises \<open>FileNotFoundError\<close>; no directory and no file has been created.
\<close>
theorem report_directories_counterexample:
  "fst (generate_drift_report (example_lib example_config no_metrics)
          (Some example_reference) (Some example_reference)
          (Some [''out'', ''drift_report.html'']) empty_state) =
     Inl (FileNotFoundError ''/out/drift_report.html'')
   \<and> dirs (snd (generate_drift_report (example_lib example_config no_metrics)
          (Some example_reference) (Some example_reference)
          (Some [''out'', ''drift_report.html'']) empty_state)) = {}
   \<and> files (snd (generate_drift_report (example_lib example_config no_metrics)
          (Some example_reference) (Some example_reference)
          (Some [''out'', ''drift_report.html'']) empty_state)) [''out'', ''drift_report.html''] = None"
  by (simp add: generate_drift_report_def example_defs run_simps lift_def attempt_def
      get_data_definition_def from_pandas_def save_html_def is_dir_def path_str_def)

text \<open>
  Claim C9, as amended. With the default path, a run of either report generator that
  returns has created the \<open>reports\<close> directory under the project root with its missing
  parents and written the artifact into it. With a path given by the caller, neither
  generator creates a directory, whatever the outcome; when the parent directory of the
  given path does not exist the run raises and writes no file.
\<close>
theorem report_directories:
  "(generate_drift_report L current_data reference_data None s = (Inr summary, s') \<longrightarrow>
      dirs s' = dirs s \<union> set (prefixes (PROJECT_ROOT L @ [''reports'']))
    \<and> (\<exists>html. files s' (PROJECT_ROOT L @ [''reports'', ''drift_report.html'']) = Some (Html html)))
   \<and> (generate_data_summary_report L data None s = (Inr summary, s') \<longrightarrow>
      dirs s' = dirs s \<union> set (prefixes (PROJECT_ROOT L @ [''reports'']))
    \<and> (\<exists>html. files s' (PROJECT_ROOT L @ [''reports'', ''data_summary_report.html'']) =
                 Some (Html html)))
   \<and> (generate_drift_report L current_data reference_data (Some p) s = (r, s') \<longrightarrow>
      dirs s' = dirs s
    \<and> (\<not> is_dir s (butlast p) \<longrightarrow> (\<exists>e. r = Inl e) \<and> files s' = files s))
   \<and> (generate_data_summary_report L data (Some p) s = (r, s') \<longrightarrow>
      dirs s' = dirs s
    \<and> (\<not> is_dir s (butlast p) \<longrightarrow> (\<exists>e. r = Inl e) \<and> files s' = files s))"
proof -
  have drift_default:
    "dirs s' = dirs s \<union> set (prefixes (PROJECT_ROOT L @ [''reports'']))
     \<and> (\<exists>html. files s' (PROJECT_ROOT L @ [''reports'', ''drift_report.html'']) = Some (Html html))"
    if run: "generate_drift_report L current_data reference_data None s = (Inr summary, s')"
    using drift_report_Inr [OF run] by (auto simp: after_save_def artifact_path_def)
  have summary_default:
    "dirs s' = dirs s \<union> set (prefixes (PROJECT_ROOT L @ [''reports'']))
     \<and> (\<exists>html. files s' (PROJECT_ROOT L @ [''reports'', ''data_summary_report.html'']) =
                 Some (Html html))"
    if run: "generate_data_summary_report L data None s = (Inr summary, s')"
    using summary_report_Inr [OF run] by (auto simp: after_save_def artifact_path_def)
  have drift_given:
    "dirs s' = dirs s
     \<and> (\<not> is_dir s (butlast p) \<longrightarrow> (\<exists>e. r = Inl e) \<and> files s' = files s)"
    if run: "generate_drift_report L current_data reference_data (Some p) s = (r, s')"
    by (rule drift_report_explicit [OF run])
  have summary_given:
    "dirs s' = dirs s
     \<and> (\<not> is_dir s (butlast p) \<longrightarrow> (\<exists>e. r = Inl e) \<and> files s' = files s)"
    if run: "generate_data_summary_report L data (Some p) s = (r, s')"
    by (rule summary_report_explicit [OF run])
  from drift_default summary_default drift_given summary_given show ?thesis
    by (intro conjI impI) blast+
qed

theorem report_directories_witness:
  "\<exists>summary s'.
     generate_drift_report (example_lib example_config no_metrics)
       (Some example_reference) (Some example_reference) None empty_state = (Inr summary, s')
   \<and> dirs s' = {[], [''project''], [''project'', ''reports'']}
   \<and> (\<exists>html. files s' [''project'', ''reports'', ''drift_report.html''] = Some (Html html))"
proof -
  let ?L = "example_lib example_config no_metrics"
  obtain summary s' where
    run: "generate_drift_report ?L (Some example_reference) (Some example_reference) None
            empty_state = (Inr summary, s')"
    by (simp add: generate_drift_report_def example_defs run_simps lift_def attempt_def
      get_data_definition_def from_pandas_def save_html_def is_dir_def path_str_def)
  from report_directories [of ?L "Some example_reference" "Some example_reference" empty_state
      summary s'] run
  have "dirs s' = dirs empty_state \<union> set (prefixes (PROJECT_ROOT ?L @ [''reports'']))"
    and "\<exists>html. files s' (PROJECT_ROOT ?L @ [''reports'', ''drift_report.html'']) = Some (Html html)"
    by blast+
  then have "dirs s' = {[], [''project''], [''project'', ''reports'']}"
    and "\<exists>html. files s' [''project'', ''reports'', ''drift_report.html''] = Some (Html html)"
    by (simp_all add: empty_state_def example_lib_def insert_commute)
  with run show ?thesis by blast
qed

text \<open>
  Claim C10. In a run of the orchestrator that returns, the data-summary report was run
  (last of all report runs, with no reference) on the current dataset, and the \<open>samples\<close>
  field of \<open>data_summary\<close> is the row count of the current dataset; when no current
  dataset was supplied this is the row count of the 30% sample of the reference dataset.
  A standalone call of the data-summary generator without data reports the row count of
  the reference dataset instead.
\<close>
theorem summary_over_current:
  assumes run: "generate_full_monitoring_report L current_data reference_data s = (Inr results, s')"
  shows "\<exists>R C dd sm.
           reference_used L reference_data = Inr R
         \<and> current_used L current_data R = Inr C
         \<and> last (report_runs s') = ([DataSummaryPreset], None, \<lparr>ds_frame = C, ds_definition = dd\<rparr>)
         \<and> map_of results ''data_summary'' = Some (PDict sm)
         \<and> map_of sm ''samples'' = Some (PInt (int (nrows C)))
         \<and> (current_data = None \<longrightarrow> nrows C = nrows (sample L (PFloat ''0.3'') 42 R))
         \<and> (\<forall>output_path s0 sm0 s0'.
               generate_data_summary_report L None output_path s0 = (Inr sm0, s0') \<longrightarrow>
               (\<exists>R0. load_reference_data L = Inr R0
                    \<and> map_of sm0 ''samples'' = Some (PInt (int (nrows R0)))))"
proof -
  from full_report_Inr [OF run] obtain R C d s1 sm s2 where
    R: "reference_used L reference_data = Inr R"
    and C: "current_used L current_data R = Inr C"
    and summ: "generate_data_summary_report L (Some C) None (before_summary s1) = (Inr sm, s2)"
    and results: "results = combined L (clock s) d sm"
    and s': "s' = after_dump L results s2"
    by blast
  from summary_report_Inr [OF summ] obtain dd where
    sm: "map_of sm ''samples'' = Some (PInt (int (nrows C)))"
    and runs: "report_runs s2 = report_runs (before_summary s1) @
        [([DataSummaryPreset], None, \<lparr>ds_frame = C, ds_definition = dd\<rparr>)]"
    by (auto simp: reference_used_def after_save_def)
  from runs s' have last_run:
    "last (report_runs s') = ([DataSummaryPreset], None, \<lparr>ds_frame = C, ds_definition = dd\<rparr>)"
    by (simp add: after_dump_def)
  from results have field: "map_of results ''data_summary'' = Some (PDict sm)"
    by (simp add: combined_def)
  have simulated: "nrows C = nrows (sample L (PFloat ''0.3'') 42 R)" if "current_data = None"
  proof -
    from C that obtain cfg where "simulate_current L cfg R = Inr C"
      by (auto simp: current_used_def attempt_def split: sum.splits)
    then have "shift_columns L (cfg_numeric cfg) (sample L (PFloat ''0.3'') 42 R) = Inr C"
      by (simp add: simulate_current_def)
    from shift_columns_shape [OF this] show ?thesis by simp
  qed
  have standalone: "\<exists>R0. load_reference_data L = Inr R0
                    \<and> map_of sm0 ''samples'' = Some (PInt (int (nrows R0)))"
    if "generate_data_summary_report L None output_path s0 = (Inr sm0, s0')"
    for output_path s0 sm0 s0'
    using summary_report_Inr [OF that] by (auto simp: reference_used_def)
  from R C last_run field sm simulated standalone show ?thesis by blast
qed

theorem summary_over_current_witness:
  "\<exists>results s' sm sm0 s0'.
     generate_full_monitoring_report (example_lib example_config no_metrics) None None empty_state =
       (Inr results, s')
   \<and> nrows example_reference = 10
   \<and> map_of results ''data_summary'' = Some (PDict sm)
   \<and> map_of sm ''samples'' = Some (PInt 3)
   \<and> generate_data_summary_report (example_lib example_config no_metrics) None None empty_state =
       (Inr sm0, s0')
   \<and> map_of sm0 ''samples'' = Some (PInt 10)"
proof -
  let ?L = "example_lib example_config no_metrics"
  let ?C = "\<lparr>nrows = 3,
            columns = [(''age'', [42, 63, 105]), (''bp'', [84, 105 / 2, 84]), (''htn'', [1, 0, 0])]\<rparr>"
  have R: "reference_used ?L None = Inr example_reference"
    by (simp add: reference_used_def load_reference_data_def attempt_def example_lib_def
        example_config_def)
  have C: "current_used ?L None example_reference = Inr ?C"
    by (simp add: current_used_def simulate_current_def example_defs attempt_def)
  have R0: "load_reference_data ?L = Inr example_reference"
    by (simp add: load_reference_data_def attempt_def example_lib_def example_config_def)
  obtain results s' where
    run: "generate_full_monitoring_report ?L None None empty_state = (Inr results, s')"
    by (simp add: generate_full_monitoring_report_def generate_drift_report_def
      generate_data_summary_report_def example_defs run_simps lift_def ret_def attempt_def
      load_reference_data_def simulate_current_def json_dump_def Let_def
      get_data_definition_def from_pandas_def save_html_def is_dir_def path_str_def)
  obtain sm0 s0' where
    alone: "generate_data_summary_report ?L None None empty_state = (Inr sm0, s0')"
    by (simp add: generate_data_summary_report_def example_defs run_simps lift_def ret_def
      attempt_def load_reference_data_def get_data_definition_def from_pandas_def save_html_def
      is_dir_def path_str_def)
  from summary_over_current [OF run] obtain R' C' sm where
    "reference_used ?L None = Inr R'" "current_used ?L None R' = Inr C'"
    "map_of results ''data_summary'' = Some (PDict sm)"
    "map_of sm ''samples'' = Some (PInt (int (nrows C')))"
    and standalone: "\<forall>output_path s0 sm0 s0'.
               generate_data_summary_report ?L None output_path s0 = (Inr sm0, s0') \<longrightarrow>
               (\<exists>R0. load_reference_data ?L = Inr R0
                    \<and> map_of sm0 ''samples'' = Some (PInt (int (nrows R0))))"
    by blast
  with R C have sm: "map_of results ''data_summary'' = Some (PDict sm)"
    "map_of sm ''samples'' = Some (PInt 3)"
    by auto
  from standalone alone R0 have "map_of sm0 ''samples'' = Some (PInt (int (nrows example_reference)))"
    by fastforce
  then have "map_of sm0 ''samples'' = Some (PInt 10)" "nrows example_reference = 10"
    by (simp_all add: example_reference_def)
  with run alone sm show ?thesis by blast
qed


end
